theory Spec2Isabelle
  imports Complex_Main "HOL-Library.Word" "HOL-Library.Log_Nat"
begin

section \<open>Machine integers and result codes\<close>

text \<open>
  The firmware computes on \<open>uint8_t\<close>, \<open>uint32_t\<close> and \<open>int32_t\<close>.  All three are
  words here; \<open>+\<close>, \<open>-\<close> and \<open>*\<close> wrap, \<open><\<close> on a word is the unsigned comparison
  and \<open><s\<close> the signed one.  An \<open>int32_t\<close> is a 32-bit word read through \<open>sint\<close>;
  signed arithmetic that leaves the \<open>int32_t\<close> range is taken to wrap.
\<close>

type_synonym u8 = "8 word"
type_synonym u32 = "32 word"
type_synonym i32 = "32 word"

definition UINT32_MAX :: u32 where
  "UINT32_MAX = 0xFFFFFFFF"

text \<open>
  The \<open>Result\<close> enumeration.  Its enumerators are listed in the order of the name table
  of \<open>ResultToStr\<close> (Result.cpp), which is kept in the order of the enum.
\<close>

datatype Result =
    RESULT_OK
  | RESULT_ERROR
  | RESULT_NOT_SUP
  | RESULT_NOT_IMPL
  | RESULT_NOT_READY
  | RESULT_NOT_EXECUTED
  | RESULT_NOT_ALLOWED
  | RESULT_BAD_PARAM
  | RESULT_PARSE_ERROR
  | RESULT_PERM_DENIED
  | RESULT_EXISTS
  | RESULT_BUSY
  | RESULT_DEV_ERR
  | RESULT_TIMEOUT
  | RESULT_ABORTED
  | RESULT_NO_DATA
  | RESULT_NO_MEM
  | RESULT_NO_RESOURCE
  | RESULT_HW_FAILURE
  | RESULT_HW_DISABLED
  | RESULT_OVERFLOW
  | RESULT_UNDERFLOW
  | RESULT_CRC_ERROR
  | RESULT_NOT_VALID

datatype SignalPolarity = ActiveHigh | ActiveLow

section \<open>The Arduino runtime\<close>

text \<open>
  The firmware talks to the board through the Arduino core: \<open>micros\<close>, \<open>millis\<close>,
  \<open>digitalRead\<close>, \<open>digitalWrite\<close>, \<open>pinMode\<close>, \<open>delay\<close> and \<open>delayMicroseconds\<close>.
  The board is a record: what the n-th call of each reading primitive returns, how
  many calls have been made, and the log of everything written or waited for.
  \<open>digitalRead_src n pin\<close> is \<open>digitalRead(pin) != 0\<close> at the n-th read; a written
  level is \<open>True\<close> for \<open>HIGH\<close>.
\<close>

datatype PinMode = INPUT | OUTPUT

datatype io_event =
    Ev_pinMode u8 PinMode
  | Ev_digitalWrite u8 bool
  | Ev_delayMicroseconds u32
  | Ev_delay u32

record arduino =
  micros_src :: "nat \<Rightarrow> u32"
  micros_cnt :: nat
  millis_src :: "nat \<Rightarrow> u32"
  millis_cnt :: nat
  digitalRead_src :: "nat \<Rightarrow> u8 \<Rightarrow> bool"
  digitalRead_cnt :: nat
  io_log :: "io_event list"

definition micros :: "arduino \<Rightarrow> u32 \<times> arduino" where
  "micros w = (micros_src w (micros_cnt w), w\<lparr>micros_cnt := Suc (micros_cnt w)\<rparr>)"

definition millis :: "arduino \<Rightarrow> u32 \<times> arduino" where
  "millis w = (millis_src w (millis_cnt w), w\<lparr>millis_cnt := Suc (millis_cnt w)\<rparr>)"

definition digitalRead :: "u8 \<Rightarrow> arduino \<Rightarrow> bool \<times> arduino" where
  "digitalRead pin w =
     (digitalRead_src w (digitalRead_cnt w) pin, w\<lparr>digitalRead_cnt := Suc (digitalRead_cnt w)\<rparr>)"

definition digitalWrite :: "u8 \<Rightarrow> bool \<Rightarrow> arduino \<Rightarrow> arduino" where
  "digitalWrite pin level w = w\<lparr>io_log := io_log w @ [Ev_digitalWrite pin level]\<rparr>"

definition pinMode :: "u8 \<Rightarrow> PinMode \<Rightarrow> arduino \<Rightarrow> arduino" where
  "pinMode pin mode w = w\<lparr>io_log := io_log w @ [Ev_pinMode pin mode]\<rparr>"

definition delayMicroseconds :: "u32 \<Rightarrow> arduino \<Rightarrow> arduino" where
  "delayMicroseconds us w = w\<lparr>io_log := io_log w @ [Ev_delayMicroseconds us]\<rparr>"

definition delay :: "u32 \<Rightarrow> arduino \<Rightarrow> arduino" where
  "delay ms w = w\<lparr>io_log := io_log w @ [Ev_delay ms]\<rparr>"

section \<open>DistanceSensor\<close>

text \<open>
  The members of \<open>class DistanceSensor\<close> (DistanceSensor.h); \<open>_name\<close> holds at most
  31 characters.
\<close>

record DistanceSensor =
  ds_initDone :: bool
  ds_name :: string
  ds_triggerPin :: u8
  ds_echoPin :: u8
  ds_minTriggerPulseDurationUs :: u32
  ds_minDistanceMm :: u32
  ds_maxDistanceMm :: u32
  ds_triggerPolarity :: SignalPolarity
  ds_echoPolarity :: SignalPolarity

text \<open>\<open>IDistanceSensor::Config\<close>; a \<open>NULL\<close> name is \<open>None\<close>.\<close>

record IDistanceSensor_Config =
  dc_name :: "string option"
  dc_triggerPin :: u8
  dc_echoPin :: u8

text \<open>
  \<open>SpeedOfSound\<close>, \<open>Time2Distance\<close> and \<open>Distance2Time\<close> compute in single-precision
  floating point and convert the result to \<open>uint32_t\<close>.  The driver is modelled over
  the two conversions it calls, each a function of the ambient temperature and of its
  second argument; their single-precision arithmetic is the section
  \<open>The conversions in single precision\<close> below, which instantiates this record.
\<close>

record conversions =
  Time2Distance :: "u32 \<Rightarrow> u32 \<Rightarrow> u32"
  Distance2Time :: "u32 \<Rightarrow> u32 \<Rightarrow> u32"

text \<open>The constructor; \<open>NOT_A_PIN\<close> comes from Arduino.h and is its first argument here.\<close>

definition DistanceSensor_ctor ::
  "u8 \<Rightarrow> u32 \<Rightarrow> u32 \<Rightarrow> u32 \<Rightarrow> SignalPolarity \<Rightarrow> SignalPolarity \<Rightarrow> DistanceSensor" where
  "DistanceSensor_ctor NOT_A_PIN minTriggerPulseDurationUs minDistanceMm maxDistanceMm
       triggerPolarity echoPolarity =
     \<lparr>ds_initDone = False, ds_name = [], ds_triggerPin = NOT_A_PIN, ds_echoPin = NOT_A_PIN,
      ds_minTriggerPulseDurationUs = minTriggerPulseDurationUs,
      ds_minDistanceMm = minDistanceMm, ds_maxDistanceMm = maxDistanceMm,
      ds_triggerPolarity = triggerPolarity, ds_echoPolarity = echoPolarity\<rparr>"

text \<open>\<open>HCSR04::HCSR04()\<close> with the constants of HCSR04.cpp.\<close>

definition HCSR04 :: "u8 \<Rightarrow> DistanceSensor" where
  "HCSR04 NOT_A_PIN = DistanceSensor_ctor NOT_A_PIN 10 20 4000 ActiveHigh ActiveHigh"

definition IsInitialized :: "DistanceSensor \<Rightarrow> bool" where
  "IsInitialized s = ds_initDone s"

definition DistanceSensor_Init ::
  "IDistanceSensor_Config \<Rightarrow> DistanceSensor \<Rightarrow> arduino \<Rightarrow> Result \<times> DistanceSensor \<times> arduino" where
  "DistanceSensor_Init configuration s w =
     (if IsInitialized s then (RESULT_BUSY, s, w)
      else case dc_name configuration of
        None \<Rightarrow> (RESULT_BAD_PARAM, s, w)
      | Some n \<Rightarrow>
          (let s1 = s\<lparr>ds_name := take 31 n,
                      ds_triggerPin := dc_triggerPin configuration,
                      ds_echoPin := dc_echoPin configuration\<rparr>;
               w1 = pinMode (ds_triggerPin s1) OUTPUT w;
               w2 = pinMode (ds_echoPin s1) INPUT w1
           in (RESULT_OK, s1\<lparr>ds_initDone := True\<rparr>, w2)))"

definition DistanceSensor_Deinit :: "DistanceSensor \<Rightarrow> arduino \<Rightarrow> DistanceSensor \<times> arduino" where
  "DistanceSensor_Deinit s w =
     (let s1 = s\<lparr>ds_name := []\<rparr>;
          w1 = pinMode (ds_echoPin s1) INPUT w;
          w2 = pinMode (ds_triggerPin s1) INPUT w1
      in (s1\<lparr>ds_initDone := False\<rparr>, w2))"

definition SetTriggerPintState :: "bool \<Rightarrow> DistanceSensor \<Rightarrow> arduino \<Rightarrow> arduino" where
  "SetTriggerPintState active s w =
     (let state = (if active then (if ds_triggerPolarity s = ActiveHigh then True else False)
                   else (if ds_triggerPolarity s = ActiveHigh then False else True))
      in digitalWrite (ds_triggerPin s) state w)"

definition TriggerMeasurement :: "DistanceSensor \<Rightarrow> arduino \<Rightarrow> arduino" where
  "TriggerMeasurement s w =
     (let w1 = SetTriggerPintState False s w;
          w2 = delayMicroseconds (ds_minTriggerPulseDurationUs s div 5) w1;
          w3 = SetTriggerPintState True s w2;
          w4 = delayMicroseconds (ds_minTriggerPulseDurationUs s) w3;
          w5 = SetTriggerPintState False s w4
      in delayMicroseconds (ds_minTriggerPulseDurationUs s div 5) w5)"

definition GetEchoPinState :: "DistanceSensor \<Rightarrow> arduino \<Rightarrow> bool \<times> arduino" where
  "GetEchoPinState s w =
     (let (rawPinState, w1) = digitalRead (ds_echoPin s) w
      in (if ds_echoPolarity s = ActiveHigh then rawPinState else \<not> rawPinState, w1))"

text \<open>
  The two polling loops of \<open>ReadDistance\<close>,
  \<open>while ((echoPinState == false) && (time < endTime))\<close> and
  \<open>while ((echoPinState == true) && (time < endTime))\<close>, differ in the level they wait
  on, the argument \<open>level\<close>.  A loop runs for as long as the board lets it, so the
  function is partial: \<open>None\<close> is a loop that never ends.
\<close>

partial_function (option) wait_echo ::
  "DistanceSensor \<Rightarrow> bool \<Rightarrow> u32 \<Rightarrow> bool \<Rightarrow> u32 \<Rightarrow> arduino \<Rightarrow> (bool \<times> u32 \<times> arduino) option" where
  "wait_echo s level endTime echoPinState time w =
     (if echoPinState = level \<and> time < endTime then
        (let (echoPinState1, w1) = GetEchoPinState s w;
             (time1, w2) = micros w1
         in wait_echo s level endTime echoPinState1 time1 w2)
      else Some (echoPinState, time, w))"

text \<open>
  \<open>DistanceSensor::ReadDistance\<close>; the reference parameter \<open>distance\<close> is passed in and
  returned.
\<close>

definition ReadDistance ::
  "conversions \<Rightarrow> u32 \<Rightarrow> DistanceSensor \<Rightarrow> u32 \<Rightarrow> arduino \<Rightarrow> (Result \<times> u32 \<times> arduino) option" where
  "ReadDistance cv ambientTemperature s distance w =
     (let maxWaitDurationUs = Distance2Time cv ambientTemperature (ds_maxDistanceMm s);
          (startTime, w1) = micros w;
          endTime = startTime + maxWaitDurationUs
      in case wait_echo s False endTime False startTime w1 of
           None \<Rightarrow> None
         | Some (echoPinState, time, w2) \<Rightarrow>
             if echoPinState = False then Some (RESULT_TIMEOUT, distance, w2)
             else
               (let (echoPulseStartTimeUs, w3) = micros w2;
                    (now, w4) = micros w3;
                    endTime2 = now + maxWaitDurationUs
                in case wait_echo s True endTime2 echoPinState time w4 of
                     None \<Rightarrow> None
                   | Some (echoPinState2, time2, w5) \<Rightarrow>
                       if echoPinState2 = True then Some (RESULT_TIMEOUT, distance, w5)
                       else
                         (let echoPulseDurationUs = time2 - echoPulseStartTimeUs
                          in Some (RESULT_OK,
                                   Time2Distance cv ambientTemperature echoPulseDurationUs,
                                   w5))))"

text \<open>\<open>DistanceSensor::MeasureDistance(uint32_t ambientTemperature, uint32_t& distance)\<close>.\<close>

definition DistanceSensor_MeasureDistanceT ::
  "conversions \<Rightarrow> u32 \<Rightarrow> DistanceSensor \<Rightarrow> u32 \<Rightarrow> arduino
     \<Rightarrow> (Result \<times> u32 \<times> DistanceSensor \<times> arduino) option" where
  "DistanceSensor_MeasureDistanceT cv ambientTemperature s distance w =
     (if \<not> IsInitialized s then Some (RESULT_NOT_READY, distance, s, w)
      else
        (let w1 = TriggerMeasurement s w
         in case ReadDistance cv ambientTemperature s 0 w1 of
              None \<Rightarrow> None
            | Some (result, distance1, w2) \<Rightarrow> Some (result, distance1, s, w2)))"

text \<open>\<open>DistanceSensor::MeasureDistance(uint32_t& distance)\<close>.\<close>

definition DistanceSensor_MeasureDistance ::
  "conversions \<Rightarrow> DistanceSensor \<Rightarrow> u32 \<Rightarrow> arduino
     \<Rightarrow> (Result \<times> u32 \<times> DistanceSensor \<times> arduino) option" where
  "DistanceSensor_MeasureDistance cv s distance w =
     (let ambientTemperature = 20 * 10
      in DistanceSensor_MeasureDistanceT cv ambientTemperature s distance w)"

section \<open>The interfaces seen by the state machine\<close>

text \<open>
  The state machine holds an \<open>IDistanceSensor*\<close> and an \<open>ITrafficLight*\<close> and calls
  virtual methods through them.  An implementation of an interface is a function
  from the method called to what the method does to the object and to the board.
  A sensor method takes and returns the reference parameter \<open>distance\<close> and may not
  return (\<open>None\<close>).
\<close>

datatype IDistanceSensor_call = Call_MeasureDistance | Call_MeasureDistanceT u32

type_synonym 's IDistanceSensor =
  "IDistanceSensor_call \<Rightarrow> 's \<Rightarrow> u32 \<Rightarrow> arduino \<Rightarrow> (Result \<times> u32 \<times> 's \<times> arduino) option"

definition DistanceSensor_class :: "conversions \<Rightarrow> DistanceSensor IDistanceSensor" where
  "DistanceSensor_class cv call =
     (case call of
        Call_MeasureDistance \<Rightarrow> DistanceSensor_MeasureDistance cv
      | Call_MeasureDistanceT ambientTemperature \<Rightarrow>
          DistanceSensor_MeasureDistanceT cv ambientTemperature)"

datatype LightSelector = RedLight | YellowLight | GreenLight

datatype ITrafficLight_call =
    Call_TurnOn LightSelector
  | Call_SetAllLightsOff
  | Call_PerformLightsTest

type_synonym 't ITrafficLight =
  "ITrafficLight_call \<Rightarrow> 't \<Rightarrow> arduino \<Rightarrow> Result \<times> 't \<times> arduino"

text \<open>
  Three implementations used as concrete collaborators below: a sensor that always
  returns \<open>result\<close> and leaves \<open>value\<close> in \<open>distance\<close>, an indicator that records the
  calls it receives and accepts them all, and an indicator that fails every call
  with \<open>RESULT_DEV_ERR\<close>.
\<close>

definition ConstantSensor :: "Result \<Rightarrow> u32 \<Rightarrow> 's IDistanceSensor" where
  "ConstantSensor result value call s distance w = Some (result, value, s, w)"

definition RecordingLight :: "(ITrafficLight_call list) ITrafficLight" where
  "RecordingLight call t w = (RESULT_OK, t @ [call], w)"

definition BrokenLight :: "'t ITrafficLight" where
  "BrokenLight call t w = (RESULT_DEV_ERR, t, w)"

section \<open>StateMachine: enumerations and motion classification\<close>

datatype State =
    Invalid
  | Initializing
  | Idle
  | Error
  | SubjectApproaching
  | SubjectRetreating

datatype MovingDirection = Stopped | Forward | Backward

text \<open>
  The \<open>abs\<close> of Arduino.h is the macro \<open>((x)>0?(x):-(x))\<close>, here at type \<open>int32_t\<close>.
\<close>

definition abs_i32 :: "i32 \<Rightarrow> i32" where
  "abs_i32 x = (if 0 <s x then x else - x)"

text \<open>
  \<open>StateMachine::GetMovingDirection(uint32_t deltaT, int32_t deltaD)\<close>.  It reads two
  members of the state machine, passed here as the first two arguments.  In
  \<open>abs(deltaD) > _movingDistanceDetectionThresholdMm\<close> the left operand is an
  \<open>int32_t\<close> and the right one a \<open>uint32_t\<close>, so the comparison is made on unsigned
  values.
\<close>

definition GetMovingDirection :: "u32 \<Rightarrow> u32 \<Rightarrow> u32 \<Rightarrow> i32 \<Rightarrow> MovingDirection" where
  "GetMovingDirection movingTimeThresholdMs movingDistanceDetectionThresholdMm deltaT deltaD =
     (if movingTimeThresholdMs < deltaT then
        (if movingDistanceDetectionThresholdMm < abs_i32 deltaD then
           (if 0 <s deltaD then Backward else Forward)
         else Stopped)
      else Stopped)"

text \<open>
  \<open>StateMachine::Config\<close> and the members of \<open>class StateMachine\<close>
  (StateMachine.h).  A pointer to a collaborator is the collaborator's object, or
  \<open>None\<close> for \<open>nullptr\<close>.
\<close>

record ('s, 't) Config =
  cfg_distanceSensor :: "'s option"
  cfg_trafficLight :: "'t option"
  cfg_maxDistanceThresholdMm :: u32
  cfg_farThresholdMm :: u32
  cfg_nearThresholdMm :: u32
  cfg_movingDistanceDetectionThresholdMm :: u32
  cfg_movingTimeThresholdMs :: u32
  cfg_holdingTimeThresholdMs :: u32

record ('s, 't) StateMachine =
  initDone :: bool
  state :: State
  previousState :: State
  distanceSensor :: "'s option"
  trafficLight :: "'t option"
  previousDistance :: u32
  previousTime :: u32
  maxDistanceThresholdMm :: u32
  farThresholdMm :: u32
  nearThresholdMm :: u32
  movingDistanceDetectionThresholdMm :: u32
  movingTimeThresholdMs :: u32
  holdingTimeThresholdMs :: u32

text \<open>
  How a call ends: it returns, an \<open>assert\<close> fails (\<open>__assert\<close> of DebugUtils.cpp
  logs the expression and calls \<open>abort\<close>; assertions are compiled in), \<open>Reset\<close>
  jumps to address 0 (what remains is the board at that moment), a method is called
  through \<open>nullptr\<close>, or a collaborator never returns.  The calls of the logger change nothing the state machine or the
  driver reads and are left out of every function below.
\<close>

datatype 'a exec =
    Returns 'a
  | AssertFailed string
  | Restarted arduino
  | NullPointerCall
  | NoReturn

fun exec_bind :: "'a exec \<Rightarrow> ('a \<Rightarrow> 'b exec) \<Rightarrow> 'b exec" where
  "exec_bind (Returns x) f = f x"
| "exec_bind (AssertFailed e) f = AssertFailed e"
| "exec_bind (Restarted w) f = Restarted w"
| "exec_bind NullPointerCall f = NullPointerCall"
| "exec_bind NoReturn f = NoReturn"

definition StateMachine_ctor :: "('s, 't) StateMachine" where
  "StateMachine_ctor =
     \<lparr>initDone = False, state = Invalid, previousState = Invalid,
      distanceSensor = None, trafficLight = None,
      previousDistance = UINT32_MAX, previousTime = 0,
      maxDistanceThresholdMm = 0, farThresholdMm = 0, nearThresholdMm = 0,
      movingDistanceDetectionThresholdMm = 0, movingTimeThresholdMs = 0,
      holdingTimeThresholdMs = 0\<rparr>"

text \<open>\<open>StateMachine::Init\<close>.\<close>

definition StateMachine_Init ::
  "('s, 't) Config \<Rightarrow> ('s, 't) StateMachine \<Rightarrow> ('s, 't) StateMachine exec" where
  "StateMachine_Init configuration m =
     (if \<not> (initDone m = False) then AssertFailed ''_initDone == false''
      else if \<not> (cfg_distanceSensor configuration \<noteq> None)
        then AssertFailed ''configuration.distanceSensor != nullptr''
      else if \<not> (cfg_trafficLight configuration \<noteq> None)
        then AssertFailed ''configuration.trafficLight != nullptr''
      else Returns (m\<lparr>
        distanceSensor := cfg_distanceSensor configuration,
        trafficLight := cfg_trafficLight configuration,
        maxDistanceThresholdMm := cfg_maxDistanceThresholdMm configuration,
        farThresholdMm := cfg_farThresholdMm configuration,
        nearThresholdMm := cfg_nearThresholdMm configuration,
        movingDistanceDetectionThresholdMm := cfg_movingDistanceDetectionThresholdMm configuration,
        movingTimeThresholdMs := cfg_movingTimeThresholdMs configuration,
        holdingTimeThresholdMs := cfg_holdingTimeThresholdMs configuration,
        state := Initializing,
        previousDistance := UINT32_MAX,
        previousTime := 0,
        initDone := True\<rparr>))"

text \<open>
  \<open>StateMachine::MeasureDistance\<close>: the one-argument \<open>MeasureDistance\<close> of the sensor
  is called with \<open>distance = 0\<close>, then the \<open>switch\<close> on its result.  \<open>RESULT_DEV_ERR\<close>
  waits a second and calls \<open>Reset\<close>.
\<close>

definition StateMachine_MeasureDistance ::
  "'s IDistanceSensor \<Rightarrow> ('s, 't) StateMachine \<Rightarrow> arduino
     \<Rightarrow> (u32 \<times> ('s, 't) StateMachine \<times> arduino) exec" where
  "StateMachine_MeasureDistance sns m w =
     (case distanceSensor m of
        None \<Rightarrow> NullPointerCall
      | Some s \<Rightarrow>
          (case sns Call_MeasureDistance s 0 w of
             None \<Rightarrow> NoReturn
           | Some (result, distance, s1, w1) \<Rightarrow>
               (let m1 = m\<lparr>distanceSensor := Some s1\<rparr>
                in if result = RESULT_OK then Returns (distance, m1, w1)
                   else if result = RESULT_TIMEOUT then Returns (UINT32_MAX, m1, w1)
                   else if result = RESULT_DEV_ERR then Restarted (delay 1000 w1)
                   else if result = RESULT_NOT_READY
                     then AssertFailed ''result != RESULT_NOT_READY''
                   else AssertFailed ''false'')))"

text \<open>A call of a method of the indicator through \<open>_trafficLight\<close>.\<close>

definition trafficLight_call ::
  "'t ITrafficLight \<Rightarrow> ITrafficLight_call \<Rightarrow> ('s, 't) StateMachine \<Rightarrow> arduino
     \<Rightarrow> (Result \<times> ('s, 't) StateMachine \<times> arduino) exec" where
  "trafficLight_call lights call m w =
     (case trafficLight m of
        None \<Rightarrow> NullPointerCall
      | Some t \<Rightarrow>
          (case lights call t w of
             (result, t1, w1) \<Rightarrow> Returns (result, m\<lparr>trafficLight := Some t1\<rparr>, w1)))"

text \<open>\<open>StateMachine::SetAllLightsOff\<close>; the result of the call is dropped.\<close>

definition StateMachine_SetAllLightsOff ::
  "'t ITrafficLight \<Rightarrow> ('s, 't) StateMachine \<Rightarrow> arduino
     \<Rightarrow> (('s, 't) StateMachine \<times> arduino) exec" where
  "StateMachine_SetAllLightsOff lights m w =
     exec_bind (trafficLight_call lights Call_SetAllLightsOff m w)
       (\<lambda>(result, m1, w1). Returns (m1, w1))"

text \<open>\<open>StateMachine::TestLights\<close>.\<close>

definition TestLights ::
  "'t ITrafficLight \<Rightarrow> ('s, 't) StateMachine \<Rightarrow> arduino
     \<Rightarrow> (Result \<times> ('s, 't) StateMachine \<times> arduino) exec" where
  "TestLights lights m w = trafficLight_call lights Call_PerformLightsTest m w"

text \<open>The closing \<open>assert (result == RESULT_OK)\<close> of \<open>SetTrafficLights\<close>.\<close>

definition assert_result_ok ::
  "Result \<times> ('s, 't) StateMachine \<times> arduino \<Rightarrow> (('s, 't) StateMachine \<times> arduino) exec" where
  "assert_result_ok r =
     (case r of (result, m1, w1) \<Rightarrow>
        if result = RESULT_OK then Returns (m1, w1) else AssertFailed ''result == RESULT_OK'')"

text \<open>\<open>StateMachine::SetTrafficLights\<close>.\<close>

definition SetTrafficLights ::
  "'t ITrafficLight \<Rightarrow> u32 \<Rightarrow> ('s, 't) StateMachine \<Rightarrow> arduino
     \<Rightarrow> (('s, 't) StateMachine \<times> arduino) exec" where
  "SetTrafficLights lights distance m w =
     exec_bind
       (if maxDistanceThresholdMm m < distance then
          trafficLight_call lights Call_SetAllLightsOff m w
        else if farThresholdMm m < distance then
          trafficLight_call lights (Call_TurnOn GreenLight) m w
        else if nearThresholdMm m < distance then
          trafficLight_call lights (Call_TurnOn YellowLight) m w
        else
          trafficLight_call lights (Call_TurnOn RedLight) m w)
       assert_result_ok"

text \<open>
  The computation of \<open>deltaD\<close> in \<open>StateMachine::Update\<close>:
  \<open>(distance > _previousDistance) ? (int32_t)(distance - _previousDistance)
     : ((int32_t)(_previousDistance - distance) * (-1))\<close>.
\<close>

definition deltaD_of :: "u32 \<Rightarrow> u32 \<Rightarrow> i32" where
  "deltaD_of distance prevDistance =
     (if prevDistance < distance then distance - prevDistance
      else (prevDistance - distance) * (- 1))"

text \<open>
  The \<open>switch(_state)\<close> of \<open>StateMachine::Update\<close>.  It returns \<open>nextState\<close>, which
  starts as \<open>_state\<close>.
\<close>

definition Update_switch ::
  "'t ITrafficLight \<Rightarrow> u32 \<Rightarrow> u32 \<Rightarrow> u32 \<Rightarrow> MovingDirection \<Rightarrow> ('s, 't) StateMachine \<Rightarrow> arduino
     \<Rightarrow> (State \<times> ('s, 't) StateMachine \<times> arduino) exec" where
  "Update_switch lights distance time deltaT movingDirection m w =
     (case state m of
        Initializing \<Rightarrow>
          exec_bind (TestLights lights (m\<lparr>previousTime := time\<rparr>) w)
            (\<lambda>(result, m1, w1).
               Returns (if result \<noteq> RESULT_OK then Error else Idle, m1, w1))
      | Idle \<Rightarrow>
          (let m1 = m\<lparr>previousTime := time\<rparr>
           in case movingDirection of
                Stopped \<Rightarrow>
                  exec_bind (StateMachine_SetAllLightsOff lights m1 w)
                    (\<lambda>(m2, w2). Returns (state m, m2, w2))
              | Backward \<Rightarrow> Returns (SubjectRetreating, m1, w)
              | Forward \<Rightarrow> Returns (SubjectApproaching, m1, w))
      | SubjectApproaching \<Rightarrow>
          exec_bind (SetTrafficLights lights distance m w)
            (\<lambda>(m1, w1).
               case movingDirection of
                 Stopped \<Rightarrow>
                   if holdingTimeThresholdMs m1 < deltaT then
                     exec_bind (StateMachine_SetAllLightsOff lights m1 w1)
                       (\<lambda>(m2, w2). Returns (Idle, m2, w2))
                   else Returns (state m, m1, w1)
               | Backward \<Rightarrow> Returns (SubjectRetreating, m1\<lparr>previousTime := time\<rparr>, w1)
               | Forward \<Rightarrow> Returns (SubjectApproaching, m1\<lparr>previousTime := time\<rparr>, w1))
      | SubjectRetreating \<Rightarrow>
          exec_bind (SetTrafficLights lights distance m w)
            (\<lambda>(m1, w1).
               case movingDirection of
                 Stopped \<Rightarrow>
                   if holdingTimeThresholdMs m1 < deltaT then
                     exec_bind (StateMachine_SetAllLightsOff lights m1 w1)
                       (\<lambda>(m2, w2). Returns (Idle, m2, w2))
                   else Returns (state m, m1, w1)
               | Backward \<Rightarrow> Returns (SubjectRetreating, m1\<lparr>previousTime := time\<rparr>, w1)
               | Forward \<Rightarrow> Returns (SubjectApproaching, m1\<lparr>previousTime := time\<rparr>, w1))
      | Invalid \<Rightarrow> Returns (Error, m, w)
      | Error \<Rightarrow> AssertFailed ''_state != State::Error'')"

text \<open>
  \<open>StateMachine::Update\<close>: the sample, two readings of \<open>millis\<close>, \<open>deltaT\<close> and
  \<open>deltaD\<close>, the direction, the new \<open>_previousDistance\<close>, the \<open>switch\<close>, and the new
  \<open>_previousState\<close> and \<open>_state\<close>.
\<close>

definition Update ::
  "'s IDistanceSensor \<Rightarrow> 't ITrafficLight \<Rightarrow> ('s, 't) StateMachine \<Rightarrow> arduino
     \<Rightarrow> (('s, 't) StateMachine \<times> arduino) exec" where
  "Update sns lights m w =
     (if \<not> (initDone m = True) then AssertFailed ''_initDone == true''
      else
        exec_bind (StateMachine_MeasureDistance sns m w)
          (\<lambda>(distance, m1, w1).
             let (time, w2) = millis w1;
                 (now, w3) = millis w2;
                 deltaT = now - previousTime m1;
                 deltaD = deltaD_of distance (previousDistance m1);
                 movingDirection =
                   GetMovingDirection (movingTimeThresholdMs m1)
                     (movingDistanceDetectionThresholdMm m1) deltaT deltaD;
                 m2 = m1\<lparr>previousDistance := distance\<rparr>
             in exec_bind (Update_switch lights distance time deltaT movingDirection m2 w3)
                  (\<lambda>(nextState, m3, w4).
                     Returns (m3\<lparr>previousState := state m3, state := nextState\<rparr>, w4))))"

section \<open>The conversions in single precision\<close>

text \<open>
  A \<open>float\<close> of the target is an IEEE 754 binary32 number, and every operation of the
  three functions is rounded to binary32 (on the AVR target \<open>double\<close> is binary32 as
  well, so nothing is evaluated in a wider format).  A finite binary32 number is a
  rational, and an operation is the exact operation on rationals followed by
  \<open>b32_round\<close>, rounding to nearest with ties to even.

  \<open>b32_exponent x\<close> is the exponent \<open>e\<close> of the binade of a positive \<open>x\<close>,
  \<open>2 powi e \<le> x < 2 powi (e + 1)\<close>, found from the bit lengths of numerator and
  denominator, and not less than \<open>-126\<close>: below \<open>2 powi (-126)\<close> the numbers are
  subnormal and share one spacing.  The spacing of the binary32 numbers of a binade is
  \<open>2 powi (e - 23)\<close>.  Overflow to infinity is not modelled; the values of the three
  functions stay far below the largest binary32 number for all 32-bit arguments.
\<close>

definition b32_exponent :: "rat \<Rightarrow> int" where
  "b32_exponent x =
     (let (p, q) = quotient_of x;
          e0 = bitlen p - bitlen q;
          e1 = (if 2 powi e0 \<le> x then e0 else e0 - 1)
      in max (- 126) e1)"

definition round_half_even :: "rat \<Rightarrow> int" where
  "round_half_even y =
     (let f = \<lfloor>y\<rfloor>; r = y - of_int f
      in if r < 1 / 2 then f else if 1 / 2 < r then f + 1 else if even f then f else f + 1)"

definition b32_round :: "rat \<Rightarrow> rat" where
  "b32_round x =
     (if x = 0 then 0
      else (let ulp = 2 powi (b32_exponent \<bar>x\<bar> - 23)
            in sgn x * of_int (round_half_even (\<bar>x\<bar> / ulp)) * ulp))"

text \<open>The operators \<open>+\<close>, \<open>*\<close> and \<open>/\<close> on \<open>float\<close>.\<close>

definition float_add :: "rat \<Rightarrow> rat \<Rightarrow> rat" where
  "float_add a b = b32_round (a + b)"

definition float_mul :: "rat \<Rightarrow> rat \<Rightarrow> rat" where
  "float_mul a b = b32_round (a * b)"

definition float_div :: "rat \<Rightarrow> rat \<Rightarrow> rat" where
  "float_div a b = b32_round (a / b)"

text \<open>
  The cast \<open>(float)n\<close> of a \<open>uint32_t\<close> rounds, and the conversion of a \<open>float\<close> to
  \<open>uint32_t\<close> (the initialisation \<open>uint32_t distanceMm = ...\<close>) discards the fraction.
  A value outside the range of \<open>uint32_t\<close> has no defined conversion in C++; here it
  wraps.
\<close>

definition float_of_u32 :: "u32 \<Rightarrow> rat" where
  "float_of_u32 n = b32_round (of_int (uint n))"

definition u32_of_float :: "rat \<Rightarrow> u32" where
  "u32_of_float x = word_of_int (if 0 \<le> x then \<lfloor>x\<rfloor> else - \<lfloor>- x\<rfloor>)"

text \<open>
  \<open>SpeedOfSound\<close>: \<open>331.4f + (0.6f * (float)ambientTemperature / 10.0f)\<close>.  The literals
  \<open>331.4f\<close> and \<open>0.6f\<close> are the binary32 numbers nearest to 331.4 and 0.6; \<open>10.0f\<close>,
  \<open>1000.0f\<close> and the \<open>2\<close> converted to \<open>float\<close> are exact.
\<close>

definition SpeedOfSound :: "u32 \<Rightarrow> rat" where
  "SpeedOfSound ambientTemperature =
     float_add (b32_round (3314 / 10))
       (float_div (float_mul (b32_round (6 / 10)) (float_of_u32 ambientTemperature)) 10)"

text \<open>
  \<open>DistanceSensor::Time2Distance\<close>:
  \<open>((float)timeUs/1000.0f/1000.0f * (SpeedOfSound(ambientTemperature) / 2)) * 1000.0f\<close>.
  The name \<open>Time2Distance\<close> is the field of \<open>conversions\<close>, so the function carries a
  suffix.
\<close>

definition Time2Distance_binary32 :: "u32 \<Rightarrow> u32 \<Rightarrow> u32" where
  "Time2Distance_binary32 ambientTemperature timeUs =
     u32_of_float
       (float_mul
          (float_mul (float_div (float_div (float_of_u32 timeUs) 1000) 1000)
             (float_div (SpeedOfSound ambientTemperature) 2))
          1000)"

text \<open>
  \<open>Distance2Time\<close>:
  \<open>((float)distanceMm/1000.0f / (SpeedOfSound(ambientTemperature) / 2)) * 1000.0f * 1000.0f\<close>.
\<close>

definition Distance2Time_binary32 :: "u32 \<Rightarrow> u32 \<Rightarrow> u32" where
  "Distance2Time_binary32 ambientTemperature distanceMm =
     u32_of_float
       (float_mul
          (float_mul
             (float_div (float_div (float_of_u32 distanceMm) 1000)
                (float_div (SpeedOfSound ambientTemperature) 2))
             1000)
          1000)"

text \<open>The conversions the driver of the firmware calls.\<close>

definition binary32_conversions :: conversions where
  "binary32_conversions =
     \<lparr>Time2Distance = Time2Distance_binary32, Distance2Time = Distance2Time_binary32\<rparr>"

text \<open>
  The driver with the last conversion left out: a reading that succeeds returns the
  measured width of the echo pulse, \<open>echoPulseDurationUs\<close>, in place of the distance.
\<close>

definition pulse_probe :: conversions where
  "pulse_probe =
     binary32_conversions\<lparr>Time2Distance := (\<lambda>ambientTemperature timeUs. timeUs)\<rparr>"

subsection \<open>The closed forms of the specification\<close>

text \<open>
  The formulas of the specification, on rationals and without rounding:
  \<open>speedOfSound(tempDeciC) = 331.4 + 0.6 \<times> (tempDeciC / 10)\<close>,
  \<open>distanceMm = pulseDurationUs / 1,000,000 \<times> (speedOfSound/2) \<times> 1000\<close> and
  \<open>timeUs = distanceMm / 1000 / (speedOfSound/2) \<times> 1,000,000\<close>.
\<close>

definition speedOfSound_spec :: "rat \<Rightarrow> rat" where
  "speedOfSound_spec tempDeciC = 3314 / 10 + 6 / 10 * (tempDeciC / 10)"

definition timeToDistance_spec :: "rat \<Rightarrow> rat \<Rightarrow> rat" where
  "timeToDistance_spec tempDeciC pulseDurationUs =
     pulseDurationUs / 1000000 * (speedOfSound_spec tempDeciC / 2) * 1000"

definition distanceToTime_spec :: "rat \<Rightarrow> rat \<Rightarrow> rat" where
  "distanceToTime_spec tempDeciC distanceMm =
     distanceMm / 1000 / (speedOfSound_spec tempDeciC / 2) * 1000000"

subsection \<open>Values that agree up to a number of roundings\<close>

text \<open>
  One rounding of a normal number changes it by a factor between \<open>1 / rho\<close> and \<open>rho\<close>;
  \<open>close k a x\<close> says that the non-negative \<open>a\<close> and \<open>x\<close> differ by at most the factor
  \<open>rho ^ k\<close>, as a value computed with \<open>k\<close> roundings and its exact counterpart do.
\<close>

definition rho :: rat where
  "rho = 16777216 / 16777215"

definition close :: "nat \<Rightarrow> rat \<Rightarrow> rat \<Rightarrow> bool" where
  "close k a x \<longleftrightarrow> 0 \<le> a \<and> 0 \<le> x \<and> x \<le> a * rho ^ k \<and> a \<le> x * rho ^ k"

section \<open>Concrete boards, configurations and machines\<close>

text \<open>
  The inputs at which the theorems below are instantiated.

  Boards: one on which nothing happens and whose millisecond clock always reads
  \<open>ms\<close>; and one whose microsecond clock advances by 1000 at every reading and on
  which pin 8 is high at the third, fourth and fifth \<open>digitalRead\<close>.

  State machines: a configuration with \<open>near = 100\<close>, \<open>far = 300\<close> and
  \<open>maxCutoff = 2000\<close> millimetres on a given sensor object and a \<open>RecordingLight\<close>,
  the machine that \<open>Init\<close> makes of it, and a configuration whose thresholds are
  in the wrong order.  Where the sensor is a \<open>ConstantSensor\<close> its object is \<open>()\<close>.

  Machines in the course of a run: one in \<open>SubjectApproaching\<close> that last saw
  1000 mm at time 0, one in \<open>Idle\<close> after a first cycle without echo at time 1000,
  and one in \<open>Error\<close> after a failed lights test.

  Sensors: a configuration of the driver with trigger pin 7 and echo pin 8, the
  HC-SR04 after \<open>Init\<close> with it, and two stand-ins for the floating-point
  conversions: 6 microseconds per millimetre at every temperature, and the same at
  200 deci-degrees but 0 at every other temperature.
\<close>

definition quiet_board :: "u32 \<Rightarrow> arduino" where
  "quiet_board ms =
     \<lparr>micros_src = (\<lambda>n. 0), micros_cnt = 0,
      millis_src = (\<lambda>n. ms), millis_cnt = 0,
      digitalRead_src = (\<lambda>n pin. False), digitalRead_cnt = 0,
      io_log = []\<rparr>"

definition demo_config :: "'s \<Rightarrow> ('s, ITrafficLight_call list) Config" where
  "demo_config sensor =
     \<lparr>cfg_distanceSensor = Some sensor, cfg_trafficLight = Some [],
      cfg_maxDistanceThresholdMm = 2000, cfg_farThresholdMm = 300, cfg_nearThresholdMm = 100,
      cfg_movingDistanceDetectionThresholdMm = 20, cfg_movingTimeThresholdMs = 500,
      cfg_holdingTimeThresholdMs = 3000\<rparr>"

definition demo_machine :: "'s \<Rightarrow> ('s, ITrafficLight_call list) StateMachine" where
  "demo_machine sensor =
     \<lparr>initDone = True, state = Initializing, previousState = Invalid,
      distanceSensor = Some sensor, trafficLight = Some [],
      previousDistance = UINT32_MAX, previousTime = 0,
      maxDistanceThresholdMm = 2000, farThresholdMm = 300, nearThresholdMm = 100,
      movingDistanceDetectionThresholdMm = 20, movingTimeThresholdMs = 500,
      holdingTimeThresholdMs = 3000\<rparr>"

definition ticking_board :: arduino where
  "ticking_board =
     \<lparr>micros_src = (\<lambda>n. word_of_nat n * 1000), micros_cnt = 0,
      millis_src = (\<lambda>n. 1000), millis_cnt = 0,
      digitalRead_src = (\<lambda>n pin. pin = 8 \<and> 2 \<le> n \<and> n < 5), digitalRead_cnt = 0,
      io_log = []\<rparr>"

definition unordered_config :: "(unit, ITrafficLight_call list) Config" where
  "unordered_config =
     \<lparr>cfg_distanceSensor = Some (), cfg_trafficLight = Some [],
      cfg_maxDistanceThresholdMm = 50, cfg_farThresholdMm = 100, cfg_nearThresholdMm = 300,
      cfg_movingDistanceDetectionThresholdMm = 20, cfg_movingTimeThresholdMs = 500,
      cfg_holdingTimeThresholdMs = 3000\<rparr>"

definition named_config :: IDistanceSensor_Config where
  "named_config = \<lparr>dc_name = Some ''HC-SR04'', dc_triggerPin = 7, dc_echoPin = 8\<rparr>"

definition ready_HCSR04 :: DistanceSensor where
  "ready_HCSR04 = fst (snd (DistanceSensor_Init named_config (HCSR04 0) (quiet_board 0)))"

definition coarse_conversions :: conversions where
  "coarse_conversions =
     \<lparr>Time2Distance = (\<lambda>ambientTemperature timeUs. timeUs div 6),
      Distance2Time = (\<lambda>ambientTemperature distanceMm. distanceMm * 6)\<rparr>"

definition warm_only_conversions :: conversions where
  "warm_only_conversions =
     \<lparr>Time2Distance = (\<lambda>ambientTemperature timeUs.
        if ambientTemperature = 200 then timeUs div 6 else 0),
      Distance2Time = (\<lambda>ambientTemperature distanceMm.
        if ambientTemperature = 200 then distanceMm * 6 else 0)\<rparr>"

definition approaching_machine :: "(unit, ITrafficLight_call list) StateMachine" where
  "approaching_machine =
     (demo_machine ())\<lparr>state := SubjectApproaching, previousState := Idle,
        previousDistance := 1000, previousTime := 0\<rparr>"

definition idle_machine :: "(unit, ITrafficLight_call list) StateMachine" where
  "idle_machine =
     (demo_machine ())\<lparr>state := Idle, previousState := Initializing,
        previousTime := 1000, trafficLight := Some [Call_PerformLightsTest]\<rparr>"

definition faulted_machine :: "(unit, ITrafficLight_call list) StateMachine" where
  "faulted_machine =
     (demo_machine ())\<lparr>state := Error, previousState := Initializing,
        previousDistance := 1000\<rparr>"

text \<open>
  The ticking board with a clock that advances 2500 microseconds per reading: the
  echo pulse it shows lasts 10000 microseconds.
\<close>

definition slow_board :: arduino where
  "slow_board = ticking_board\<lparr>micros_src := (\<lambda>n. word_of_nat n * 2500)\<rparr>"

section \<open>Properties\<close>

subsection \<open>Signed and unsigned readings of a 32-bit word\<close>

lemma mod_shift32:
  fixes k :: int
  assumes "0 \<le> k" "k < 4294967296"
  shows "(k + 2147483648) mod 4294967296 = (if k < 2147483648 then k + 2147483648 else k - 2147483648)"
proof (cases "k < 2147483648")
  case True
  then have "(k + 2147483648) mod 4294967296 = k + 2147483648"
    using assms by (intro mod_pos_pos_trivial) simp_all
  with True show ?thesis by simp
next
  case False
  have e: "k + 2147483648 = (k - 2147483648) + 4294967296"
    by arith
  have "(k + 2147483648) mod 4294967296 = (k - 2147483648) mod 4294967296"
    by (simp only: e mod_add_self2)
  also have "\<dots> = k - 2147483648"
    using assms False by (intro mod_pos_pos_trivial) simp_all
  finally show ?thesis using False by simp
qed

lemma sint_uint32: "sint (x::32 word) = (if uint x < 2147483648 then uint x else uint x - 4294967296)"
proof -
  have b: "0 \<le> uint x" "uint x < 4294967296" using uint_lt2p[of x] by simp_all
  have "sint x = (uint x + 2147483648) mod 4294967296 - 2147483648"
    by (simp add: sint_uint signed_take_bit_eq_take_bit_shift take_bit_eq_mod)
  also have "\<dots> = (if uint x < 2147483648 then uint x + 2147483648 else uint x - 2147483648) - 2147483648"
    by (simp only: mod_shift32 [OF b])
  also have "\<dots> = (if uint x < 2147483648 then uint x else uint x - 4294967296)"
    by (cases "uint x < 2147483648") simp_all
  finally show ?thesis .
qed

lemma uint_neg32: "uint (- (x::32 word)) = (if uint x = 0 then 0 else 4294967296 - uint x)"
proof (cases "uint x = 0")
  case True
  then have "x = 0" by (simp add: uint_0_iff)
  then show ?thesis by simp
next
  case False
  have b: "0 \<le> uint x" "uint x < 4294967296" using uint_lt2p[of x] by simp_all
  have "uint (- x) = (- uint x) mod 4294967296"
    by (simp add: uint_word_ariths)
  also have "\<dots> = (4294967296 - uint x) mod 4294967296"
    by (metis add.commute mod_add_self2 uminus_add_conv_diff)
  also have "\<dots> = 4294967296 - uint x"
  proof (rule mod_pos_pos_trivial)
    show "0 \<le> 4294967296 - uint x" using b by linarith
    have "0 < uint x" using False uint_ge_0 [of x] by linarith
    then show "4294967296 - uint x < 4294967296" by linarith
  qed
  finally show ?thesis using False by simp
qed

lemma uint_abs_i32: "uint (abs_i32 x) = \<bar>sint x\<bar>"
proof -
  have b: "uint x \<noteq> 0 \<Longrightarrow> 0 < uint x" using uint_ge_0[of x] by linarith
  have c: "uint x < 4294967296" using uint_lt2p[of x] by simp
  show ?thesis using b c
    by (simp add: abs_i32_def word_sless_alt sint_uint32 uint_neg32)
qed

subsection \<open>Motion classification\<close>

text \<open>
  C1.  \<open>GetMovingDirection\<close> answers \<open>Stopped\<close> (Stationary) unless both
  \<open>deltaT > movingTimeThresholdMs\<close> and \<open>|deltaD| > movingDistanceDetectionThresholdMm\<close>;
  when both hold it answers \<open>Backward\<close> (Retreating) if \<open>deltaD > 0\<close> and \<open>Forward\<close>
  (Approaching) otherwise.  In particular a \<open>deltaD\<close> beyond the distance threshold
  with \<open>deltaT\<close> not beyond the time threshold gives \<open>Stopped\<close>, and \<open>deltaD = 0\<close>
  always gives \<open>Stopped\<close>.  \<open>deltaT\<close> and the thresholds are read as unsigned,
  \<open>deltaD\<close> as a signed 32-bit value.
\<close>

theorem GetMovingDirection_classification:
  "GetMovingDirection tT tD deltaT deltaD =
     (if uint tT < uint deltaT \<and> uint tD < \<bar>sint deltaD\<bar>
      then (if 0 < sint deltaD then Backward else Forward)
      else Stopped)
   \<and> (uint tD < \<bar>sint deltaD\<bar> \<and> \<not> uint tT < uint deltaT
        \<longrightarrow> GetMovingDirection tT tD deltaT deltaD = Stopped)
   \<and> GetMovingDirection tT tD deltaT 0 = Stopped"
proof -
  have g: "GetMovingDirection tT tD deltaT d =
     (if uint tT < uint deltaT \<and> uint tD < \<bar>sint d\<bar>
      then (if 0 < sint d then Backward else Forward)
      else Stopped)" for d
    unfolding GetMovingDirection_def word_less_def word_sless_alt uint_abs_i32
    by simp
  show ?thesis
    by (simp add: g)
qed

theorem GetMovingDirection_classification_witness:
  "GetMovingDirection 500 20 1000 50 = Backward
   \<and> GetMovingDirection 500 20 1000 (- 50) = Forward
   \<and> GetMovingDirection 500 20 1000 20 = Stopped
   \<and> (uint (20 :: u32) < \<bar>sint (50 :: i32)\<bar> \<and> \<not> uint (500 :: u32) < uint (400 :: u32))
   \<and> GetMovingDirection 500 20 400 50 = Stopped
   \<and> GetMovingDirection 500 20 1000 0 = Stopped"
  using GetMovingDirection_classification [of 500 20 1000 50]
    GetMovingDirection_classification [of 500 20 1000 "- 50"]
    GetMovingDirection_classification [of 500 20 1000 20]
    GetMovingDirection_classification [of 500 20 400 50]
  by simp

subsection \<open>The demonstration machine\<close>

lemma demo_machine_Init:
  "StateMachine_Init (demo_config a) StateMachine_ctor = Returns (demo_machine a)"
  by (simp add: StateMachine_Init_def demo_config_def StateMachine_ctor_def demo_machine_def)

subsection \<open>Tier selection\<close>

text \<open>
  C2.  With \<open>near < far < maxCutoff\<close>, \<open>SetTrafficLights\<close> issues exactly one command
  and asserts that it succeeded: all lights off if \<open>d > maxCutoff\<close>; the green (far)
  light if \<open>far < d \<le> maxCutoff\<close>; the yellow light if \<open>near < d \<le> far\<close>; the red
  (nearest) light if \<open>d \<le> near\<close>.  With 100, 300 and 2000 millimetres, 50 mm turns
  the red light on and 2500 mm turns all lights off.
\<close>

theorem SetTrafficLights_tiers:
  assumes "nearThresholdMm m < farThresholdMm m" "farThresholdMm m < maxDistanceThresholdMm m"
  shows "(maxDistanceThresholdMm m < d \<longrightarrow>
            SetTrafficLights lights d m w =
              exec_bind (trafficLight_call lights Call_SetAllLightsOff m w) assert_result_ok)
       \<and> (farThresholdMm m < d \<and> d \<le> maxDistanceThresholdMm m \<longrightarrow>
            SetTrafficLights lights d m w =
              exec_bind (trafficLight_call lights (Call_TurnOn GreenLight) m w) assert_result_ok)
       \<and> (nearThresholdMm m < d \<and> d \<le> farThresholdMm m \<longrightarrow>
            SetTrafficLights lights d m w =
              exec_bind (trafficLight_call lights (Call_TurnOn YellowLight) m w) assert_result_ok)
       \<and> (d \<le> nearThresholdMm m \<longrightarrow>
            SetTrafficLights lights d m w =
              exec_bind (trafficLight_call lights (Call_TurnOn RedLight) m w) assert_result_ok)"
  using assms by (auto simp add: SetTrafficLights_def)

theorem SetTrafficLights_tiers_witness:
  "nearThresholdMm (demo_machine ()) < farThresholdMm (demo_machine ())
   \<and> farThresholdMm (demo_machine ()) < maxDistanceThresholdMm (demo_machine ())
   \<and> nearThresholdMm (demo_machine ()) = 100
   \<and> farThresholdMm (demo_machine ()) = 300
   \<and> maxDistanceThresholdMm (demo_machine ()) = 2000
   \<and> SetTrafficLights RecordingLight 50 (demo_machine ()) (quiet_board 0) =
       Returns ((demo_machine ())\<lparr>trafficLight := Some [Call_TurnOn RedLight]\<rparr>, quiet_board 0)
   \<and> SetTrafficLights RecordingLight 2500 (demo_machine ()) (quiet_board 0) =
       Returns ((demo_machine ())\<lparr>trafficLight := Some [Call_SetAllLightsOff]\<rparr>, quiet_board 0)"
proof -
  let ?m = "demo_machine ()"
  have h1: "nearThresholdMm ?m < farThresholdMm ?m" by (simp add: demo_machine_def)
  have h2: "farThresholdMm ?m < maxDistanceThresholdMm ?m" by (simp add: demo_machine_def)
  have v: "nearThresholdMm ?m = 100" "farThresholdMm ?m = 300" "maxDistanceThresholdMm ?m = 2000"
    by (simp_all add: demo_machine_def)
  have c: "trafficLight_call RecordingLight call ?m (quiet_board 0) =
      Returns (RESULT_OK, ?m\<lparr>trafficLight := Some [call]\<rparr>, quiet_board 0)" for call
    by (simp add: trafficLight_call_def RecordingLight_def demo_machine_def)
  show ?thesis
    using SetTrafficLights_tiers [OF h1 h2, of 50 RecordingLight "quiet_board 0"]
      SetTrafficLights_tiers [OF h1 h2, of 2500 RecordingLight "quiet_board 0"]
    by (simp add: v c assert_result_ok_def)
qed

subsection \<open>Configuration of the state machine\<close>

text \<open>
  C5, amended.  \<open>StateMachine::Init\<close> checks no threshold: it returns
  exactly when the machine is not yet initialised and both collaborator pointers
  are non-null, and the machine it returns holds the thresholds as they were given,
  in \<open>Initializing\<close>.  The order of \<open>near\<close>, \<open>far\<close> and \<open>maxCutoff\<close> plays no part.
\<close>

theorem Init_checks_no_threshold:
  "((\<exists>m'. StateMachine_Init c m = Returns m') \<longleftrightarrow>
      (initDone m = False \<and> cfg_distanceSensor c \<noteq> None \<and> cfg_trafficLight c \<noteq> None))
   \<and> (\<forall>m'. StateMachine_Init c m = Returns m' \<longrightarrow>
         maxDistanceThresholdMm m' = cfg_maxDistanceThresholdMm c
         \<and> farThresholdMm m' = cfg_farThresholdMm c
         \<and> nearThresholdMm m' = cfg_nearThresholdMm c
         \<and> state m' = Initializing \<and> initDone m' = True)"
  by (auto simp add: StateMachine_Init_def split: if_splits)

theorem Init_checks_no_threshold_witness:
  "initDone (StateMachine_ctor :: (unit, ITrafficLight_call list) StateMachine) = False
   \<and> cfg_distanceSensor unordered_config \<noteq> None
   \<and> cfg_trafficLight unordered_config \<noteq> None
   \<and> cfg_farThresholdMm unordered_config \<le> cfg_nearThresholdMm unordered_config
   \<and> cfg_maxDistanceThresholdMm unordered_config \<le> cfg_farThresholdMm unordered_config
   \<and> (\<exists>m'. StateMachine_Init unordered_config StateMachine_ctor = Returns m'
         \<and> nearThresholdMm m' = 300 \<and> farThresholdMm m' = 100 \<and> maxDistanceThresholdMm m' = 50)"
proof -
  have h: "initDone (StateMachine_ctor :: (unit, ITrafficLight_call list) StateMachine) = False"
    "cfg_distanceSensor unordered_config \<noteq> None" "cfg_trafficLight unordered_config \<noteq> None"
    by (simp_all add: StateMachine_ctor_def unordered_config_def)
  have v: "cfg_nearThresholdMm unordered_config = 300" "cfg_farThresholdMm unordered_config = 100"
    "cfg_maxDistanceThresholdMm unordered_config = 50"
    by (simp_all add: unordered_config_def)
  from h Init_checks_no_threshold [of unordered_config StateMachine_ctor]
  obtain m' where m': "StateMachine_Init unordered_config StateMachine_ctor = Returns m'"
    by blast
  with Init_checks_no_threshold [of unordered_config StateMachine_ctor]
  have "nearThresholdMm m' = 300 \<and> farThresholdMm m' = 100 \<and> maxDistanceThresholdMm m' = 50"
    by (simp add: v)
  with m' h show ?thesis
    by (auto simp add: v)
qed

text \<open>
  C5 as the specification states it fails: a configuration with \<open>near = 300\<close>, \<open>far = 100\<close> and
  \<open>maxCutoff = 50\<close> is accepted and takes effect.
\<close>

theorem Init_accepts_unordered_thresholds:
  "\<not> (cfg_nearThresholdMm unordered_config < cfg_farThresholdMm unordered_config)
   \<and> \<not> (cfg_farThresholdMm unordered_config < cfg_maxDistanceThresholdMm unordered_config)
   \<and> StateMachine_Init unordered_config StateMachine_ctor =
       Returns
         \<lparr>initDone = True, state = Initializing, previousState = Invalid,
          distanceSensor = Some (), trafficLight = Some [],
          previousDistance = UINT32_MAX, previousTime = 0,
          maxDistanceThresholdMm = 50, farThresholdMm = 100, nearThresholdMm = 300,
          movingDistanceDetectionThresholdMm = 20, movingTimeThresholdMs = 500,
          holdingTimeThresholdMs = 3000\<rparr>"
  by (simp add: StateMachine_Init_def unordered_config_def StateMachine_ctor_def)

subsection \<open>A concrete ranging run\<close>

text \<open>
  The initialised HC-SR04 on the ticking board: the trigger pulse is written, the echo
  is polled six times, and the pulse of 4000 microseconds is converted at the
  temperature passed in.
\<close>

lemma ready_HCSR04_eq:
  "ready_HCSR04 =
     \<lparr>ds_initDone = True, ds_name = ''HC-SR04'', ds_triggerPin = 7, ds_echoPin = 8,
      ds_minTriggerPulseDurationUs = 10, ds_minDistanceMm = 20, ds_maxDistanceMm = 4000,
      ds_triggerPolarity = ActiveHigh, ds_echoPolarity = ActiveHigh\<rparr>"
  by (simp add: ready_HCSR04_def DistanceSensor_Init_def named_config_def HCSR04_def
      DistanceSensor_ctor_def IsInitialized_def Let_def pinMode_def)

lemma ranging_run:
  "map_option (\<lambda>(r, d, s, w). (r, d, s, micros_cnt w, digitalRead_cnt w, io_log w))
     (DistanceSensor_MeasureDistanceT coarse_conversions 200 ready_HCSR04 0 ticking_board) =
   Some (RESULT_OK, 666, ready_HCSR04, 9, 6,
     [Ev_digitalWrite 7 False, Ev_delayMicroseconds 2, Ev_digitalWrite 7 True,
      Ev_delayMicroseconds 10, Ev_digitalWrite 7 False, Ev_delayMicroseconds 2])"
  by (simp add: ready_HCSR04_eq DistanceSensor_MeasureDistanceT_def IsInitialized_def
      TriggerMeasurement_def SetTriggerPintState_def digitalWrite_def delayMicroseconds_def
      ticking_board_def ReadDistance_def coarse_conversions_def micros_def GetEchoPinState_def
      digitalRead_def wait_echo.simps Let_def)

subsection \<open>The driver before configuration\<close>

text \<open>
  C8.  While \<open>_initDone\<close> is false, both overloads of \<open>MeasureDistance\<close> return
  \<open>RESULT_NOT_READY\<close> and leave the driver, the board and \<open>distance\<close> as they were:
  no trigger pulse is written and the echo pin is not read.  \<open>_initDone\<close> is false
  after the constructor and after \<open>Deinit\<close>, and an \<open>Init\<close> that does not return
  \<open>RESULT_OK\<close> changes nothing.
\<close>

theorem MeasureDistance_not_ready:
  "(\<not> ds_initDone s \<longrightarrow>
      DistanceSensor_MeasureDistanceT cv ambientTemperature s d w = Some (RESULT_NOT_READY, d, s, w)
      \<and> DistanceSensor_MeasureDistance cv s d w = Some (RESULT_NOT_READY, d, s, w))
   \<and> \<not> ds_initDone (DistanceSensor_ctor p tmin dmin dmax tp ep)
   \<and> \<not> ds_initDone (fst (DistanceSensor_Deinit s w))
   \<and> (fst (DistanceSensor_Init cfg s w) \<noteq> RESULT_OK \<longrightarrow> snd (DistanceSensor_Init cfg s w) = (s, w))"
  by (simp add: DistanceSensor_MeasureDistanceT_def DistanceSensor_MeasureDistance_def
      IsInitialized_def DistanceSensor_ctor_def DistanceSensor_Deinit_def DistanceSensor_Init_def
      Let_def split: option.split)

theorem MeasureDistance_not_ready_witness:
  "\<not> ds_initDone (HCSR04 0)
   \<and> DistanceSensor_MeasureDistance coarse_conversions (HCSR04 0) 7 (quiet_board 0) =
       Some (RESULT_NOT_READY, 7, HCSR04 0, quiet_board 0)
   \<and> DistanceSensor_MeasureDistanceT coarse_conversions 250 (HCSR04 0) 7 (quiet_board 0) =
       Some (RESULT_NOT_READY, 7, HCSR04 0, quiet_board 0)
   \<and> fst (DistanceSensor_Init (named_config\<lparr>dc_name := None\<rparr>) (HCSR04 0) (quiet_board 0)) \<noteq> RESULT_OK
   \<and> snd (DistanceSensor_Init (named_config\<lparr>dc_name := None\<rparr>) (HCSR04 0) (quiet_board 0)) =
       (HCSR04 0, quiet_board 0)
   \<and> ds_initDone ready_HCSR04
   \<and> \<not> ds_initDone (fst (DistanceSensor_Deinit ready_HCSR04 ticking_board))
   \<and> DistanceSensor_MeasureDistance coarse_conversions
         (fst (DistanceSensor_Deinit ready_HCSR04 ticking_board)) 7 ticking_board =
       Some (RESULT_NOT_READY, 7, fst (DistanceSensor_Deinit ready_HCSR04 ticking_board), ticking_board)"
proof -
  note fresh = MeasureDistance_not_ready [of "HCSR04 0" coarse_conversions 250 7 "quiet_board 0"
      0 10 20 4000 ActiveHigh ActiveHigh "named_config\<lparr>dc_name := None\<rparr>"]
  note torn = MeasureDistance_not_ready [of ready_HCSR04 _ _ _ ticking_board]
  note again = MeasureDistance_not_ready
      [of "fst (DistanceSensor_Deinit ready_HCSR04 ticking_board)" coarse_conversions 250 7 ticking_board]
  have h: "\<not> ds_initDone (HCSR04 0)"
    using fresh by (simp add: HCSR04_def)
  have i: "fst (DistanceSensor_Init (named_config\<lparr>dc_name := None\<rparr>) (HCSR04 0) (quiet_board 0)) \<noteq> RESULT_OK"
    using h by (simp add: DistanceSensor_Init_def named_config_def IsInitialized_def)
  have r: "ds_initDone ready_HCSR04"
    by (simp add: ready_HCSR04_eq)
  have t: "\<not> ds_initDone (fst (DistanceSensor_Deinit ready_HCSR04 ticking_board))"
    using torn by blast
  show ?thesis
    using h i r t fresh again by simp
qed

subsection \<open>The temperature of the samples\<close>

lemma MeasureDistanceT_cong:
  assumes "\<forall>x. Time2Distance cv T x = Time2Distance cv' T x"
    and "\<forall>x. Distance2Time cv T x = Distance2Time cv' T x"
  shows "DistanceSensor_MeasureDistanceT cv T = DistanceSensor_MeasureDistanceT cv' T"
proof -
  have t: "Time2Distance cv T = Time2Distance cv' T"
    using assms(1) by (intro ext) simp
  have d: "Distance2Time cv T = Distance2Time cv' T"
    using assms(2) by (intro ext) simp
  have r: "ReadDistance cv T = ReadDistance cv' T"
    unfolding ReadDistance_def t d by (rule refl)
  show ?thesis
    by (intro ext) (simp only: DistanceSensor_MeasureDistanceT_def r)
qed

lemma StateMachine_MeasureDistance_cong:
  assumes "sns Call_MeasureDistance = sns' Call_MeasureDistance"
  shows "StateMachine_MeasureDistance sns = StateMachine_MeasureDistance sns'"
  unfolding StateMachine_MeasureDistance_def assms by (rule refl)

lemma Update_cong:
  "sns Call_MeasureDistance = sns' Call_MeasureDistance \<Longrightarrow> Update sns = Update sns'"
  by (intro ext) (simp add: Update_def StateMachine_MeasureDistance_cong [of sns sns'])

lemma DistanceSensor_class_MeasureDistance:
  "DistanceSensor_class cv Call_MeasureDistance = DistanceSensor_MeasureDistanceT cv 200"
  by (intro ext) (simp add: DistanceSensor_class_def DistanceSensor_MeasureDistance_def)

text \<open>
  C10.  The one-argument \<open>MeasureDistance\<close> of the driver is the two-argument one at
  200 deci-degrees, and it is the only method of the sensor the state machine calls:
  \<open>StateMachine::MeasureDistance\<close> and \<open>Update\<close> behave as if every method of the
  sensor were the two-argument \<open>MeasureDistance\<close> at 200.  So what the conversions
  do at any other temperature cannot be seen through the state machine.
\<close>

theorem StateMachine_samples_at_200:
  "DistanceSensor_class cv Call_MeasureDistance = DistanceSensor_MeasureDistanceT cv 200
   \<and> StateMachine_MeasureDistance (DistanceSensor_class cv) m w =
       StateMachine_MeasureDistance (\<lambda>call. DistanceSensor_MeasureDistanceT cv 200) m w
   \<and> Update (DistanceSensor_class cv) lights m w =
       Update (\<lambda>call. DistanceSensor_MeasureDistanceT cv 200) lights m w
   \<and> ((\<forall>x. Time2Distance cv 200 x = Time2Distance cv' 200 x)
        \<and> (\<forall>x. Distance2Time cv 200 x = Distance2Time cv' 200 x) \<longrightarrow>
        Update (DistanceSensor_class cv) lights m w = Update (DistanceSensor_class cv') lights m w)"
proof -
  have a: "DistanceSensor_class cv Call_MeasureDistance = DistanceSensor_MeasureDistanceT cv 200"
    by (rule DistanceSensor_class_MeasureDistance)
  have b: "StateMachine_MeasureDistance (DistanceSensor_class cv) =
       StateMachine_MeasureDistance (\<lambda>call. DistanceSensor_MeasureDistanceT cv 200)"
    by (rule StateMachine_MeasureDistance_cong) (simp add: a)
  have c: "Update (DistanceSensor_class cv) = Update (\<lambda>call. DistanceSensor_MeasureDistanceT cv 200)"
    by (rule Update_cong) (simp add: a)
  have d: "Update (DistanceSensor_class cv) = Update (DistanceSensor_class cv')"
    if "\<forall>x. Time2Distance cv 200 x = Time2Distance cv' 200 x"
      and "\<forall>x. Distance2Time cv 200 x = Distance2Time cv' 200 x"
    by (rule Update_cong)
      (simp add: DistanceSensor_class_MeasureDistance MeasureDistanceT_cong [OF that])
  show ?thesis
  proof (intro conjI impI)
    show "DistanceSensor_class cv Call_MeasureDistance = DistanceSensor_MeasureDistanceT cv 200"
      by (rule a)
    show "StateMachine_MeasureDistance (DistanceSensor_class cv) m w =
       StateMachine_MeasureDistance (\<lambda>call. DistanceSensor_MeasureDistanceT cv 200) m w"
      by (simp only: b)
    show "Update (DistanceSensor_class cv) lights m w =
       Update (\<lambda>call. DistanceSensor_MeasureDistanceT cv 200) lights m w"
      by (simp only: c)
    assume "(\<forall>x. Time2Distance cv 200 x = Time2Distance cv' 200 x)
        \<and> (\<forall>x. Distance2Time cv 200 x = Distance2Time cv' 200 x)"
    then have e: "Update (DistanceSensor_class cv) = Update (DistanceSensor_class cv')"
      by (intro d) simp_all
    show "Update (DistanceSensor_class cv) lights m w =
        Update (DistanceSensor_class cv') lights m w"
      by (simp only: e)
  qed
qed



theorem StateMachine_samples_at_200_witness:
  "(\<forall>x. Time2Distance coarse_conversions 200 x = Time2Distance warm_only_conversions 200 x)
   \<and> (\<forall>x. Distance2Time coarse_conversions 200 x = Distance2Time warm_only_conversions 200 x)
   \<and> Time2Distance coarse_conversions 250 6000 \<noteq> Time2Distance warm_only_conversions 250 6000
   \<and> Update (DistanceSensor_class coarse_conversions) RecordingLight
         (demo_machine ready_HCSR04) ticking_board =
       Update (DistanceSensor_class warm_only_conversions) RecordingLight
         (demo_machine ready_HCSR04) ticking_board
   \<and> exec_bind
         (StateMachine_MeasureDistance (DistanceSensor_class coarse_conversions)
            (demo_machine ready_HCSR04) ticking_board)
         (\<lambda>(distance, m, w). Returns distance) = Returns 666"
proof -
  have t: "\<forall>x. Time2Distance coarse_conversions 200 x = Time2Distance warm_only_conversions 200 x"
    by (simp add: coarse_conversions_def warm_only_conversions_def)
  have d: "\<forall>x. Distance2Time coarse_conversions 200 x = Distance2Time warm_only_conversions 200 x"
    by (simp add: coarse_conversions_def warm_only_conversions_def)
  have n: "Time2Distance coarse_conversions 250 6000 \<noteq> Time2Distance warm_only_conversions 250 6000"
    by (simp add: coarse_conversions_def warm_only_conversions_def)
  note T = StateMachine_samples_at_200 [of coarse_conversions "demo_machine ready_HCSR04"
      ticking_board RecordingLight warm_only_conversions]
  have u: "Update (DistanceSensor_class coarse_conversions) RecordingLight
         (demo_machine ready_HCSR04) ticking_board =
       Update (DistanceSensor_class warm_only_conversions) RecordingLight
         (demo_machine ready_HCSR04) ticking_board"
    using T t d by blast
  have "StateMachine_MeasureDistance (DistanceSensor_class coarse_conversions)
            (demo_machine ready_HCSR04) ticking_board =
        StateMachine_MeasureDistance (\<lambda>call. DistanceSensor_MeasureDistanceT coarse_conversions 200)
            (demo_machine ready_HCSR04) ticking_board"
    using T by blast
  moreover obtain w where
    "DistanceSensor_MeasureDistanceT coarse_conversions 200 ready_HCSR04 0 ticking_board =
       Some (RESULT_OK, 666, ready_HCSR04, w)"
    using ranging_run by (auto)
  ultimately have m: "exec_bind
         (StateMachine_MeasureDistance (DistanceSensor_class coarse_conversions)
            (demo_machine ready_HCSR04) ticking_board)
         (\<lambda>(distance, m, w). Returns distance) = Returns 666"
    by (simp add: StateMachine_MeasureDistance_def demo_machine_def)
  show ?thesis using t d n u m by blast
qed

subsection \<open>One cycle of the state machine\<close>

lemma StateMachine_MeasureDistance_answer:
  assumes "distanceSensor m = Some s"
    and "sns Call_MeasureDistance s 0 w = Some (result, d, s1, w1)"
  shows "StateMachine_MeasureDistance sns m w =
     (if result = RESULT_OK then Returns (d, m\<lparr>distanceSensor := Some s1\<rparr>, w1)
      else if result = RESULT_TIMEOUT then Returns (UINT32_MAX, m\<lparr>distanceSensor := Some s1\<rparr>, w1)
      else if result = RESULT_DEV_ERR then Restarted (delay 1000 w1)
      else if result = RESULT_NOT_READY then AssertFailed ''result != RESULT_NOT_READY''
      else AssertFailed ''false'')"
  using assms by (simp add: StateMachine_MeasureDistance_def)

lemma StateMachine_MeasureDistance_Returns:
  assumes "StateMachine_MeasureDistance sns m w = Returns (distance, m1, w1)"
  shows "\<exists>s1. m1 = m\<lparr>distanceSensor := Some s1\<rparr>"
  using assms
  by (auto simp add: StateMachine_MeasureDistance_def Let_def split: option.splits if_splits)



lemma trafficLight_call_Returns:
  assumes "trafficLight_call lights call m w = Returns (result, m1, w1)"
  shows "\<exists>t1. m1 = m\<lparr>trafficLight := Some t1\<rparr>"
  using assms by (auto simp add: trafficLight_call_def split: option.splits prod.splits)

lemma SetTrafficLights_Returns:
  assumes "SetTrafficLights lights distance m w = Returns (m1, w1)"
  shows "\<exists>t1. m1 = m\<lparr>trafficLight := Some t1\<rparr>"
proof -
  have "\<exists>call. SetTrafficLights lights distance m w =
      exec_bind (trafficLight_call lights call m w) assert_result_ok"
    by (simp add: SetTrafficLights_def) blast
  then obtain call where c: "SetTrafficLights lights distance m w =
      exec_bind (trafficLight_call lights call m w) assert_result_ok"
    by blast
  show ?thesis
  proof (cases "trafficLight_call lights call m w")
    case (Returns x)
    obtain result m' w' where x: "x = (result, m', w')" by (cases x) auto
    have "m1 = m'"
      using assms c Returns x by (simp add: assert_result_ok_def split: if_splits)
    then show ?thesis
      using trafficLight_call_Returns [of lights call m w result m' w'] Returns x by simp
  qed (use assms c in simp_all)
qed

lemma StateMachine_SetAllLightsOff_Returns:
  assumes "trafficLight m = Some t"
  shows "\<exists>t1 w1. StateMachine_SetAllLightsOff lights m w = Returns (m\<lparr>trafficLight := Some t1\<rparr>, w1)"
  using assms
  by (auto simp add: StateMachine_SetAllLightsOff_def trafficLight_call_def split: prod.splits)

lemma millis_quiet_board:
  "millis ((quiet_board ms)\<lparr>millis_cnt := n\<rparr>) = (ms, (quiet_board ms)\<lparr>millis_cnt := Suc n\<rparr>)"
  by (simp add: millis_def quiet_board_def)

lemma millis_quiet_board0:
  "millis (quiet_board ms) = (ms, (quiet_board ms)\<lparr>millis_cnt := Suc 0\<rparr>)"
  by (simp add: millis_def quiet_board_def)

lemmas cycle_defs =
  Update_def Update_switch_def StateMachine_MeasureDistance_def TestLights_def
  StateMachine_SetAllLightsOff_def SetTrafficLights_def trafficLight_call_def
  assert_result_ok_def GetMovingDirection_def deltaD_of_def abs_i32_def millis_def
  ConstantSensor_def RecordingLight_def BrokenLight_def
  demo_machine_def quiet_board_def UINT32_MAX_def Let_def word_sless_alt

subsection \<open>A timeout of the sensor\<close>

text \<open>
  C4, amended.  When the sensor returns \<open>RESULT_TIMEOUT\<close>,
  \<open>StateMachine::MeasureDistance\<close> returns the number \<open>UINT32_MAX\<close> (4294967295
  millimetres) as the sample and nothing fails; the cycle then runs exactly as the
  cycle of a sensor that returned \<open>RESULT_OK\<close> with a distance of \<open>UINT32_MAX\<close>, so
  that number is what the computation of \<open>deltaD\<close>, the direction and the tier
  selection consume.
\<close>

theorem Timeout_is_sampled_as_UINT32_MAX:
  assumes "distanceSensor m = Some s"
    and "sns Call_MeasureDistance s 0 w = Some (RESULT_TIMEOUT, d, s1, w1)"
    and "sns' Call_MeasureDistance s 0 w = Some (RESULT_OK, UINT32_MAX, s1, w1)"
  shows "StateMachine_MeasureDistance sns m w =
           Returns (UINT32_MAX, m\<lparr>distanceSensor := Some s1\<rparr>, w1)
       \<and> StateMachine_MeasureDistance sns m w = StateMachine_MeasureDistance sns' m w
       \<and> Update sns lights m w = Update sns' lights m w"
proof -
  have a: "StateMachine_MeasureDistance sns m w =
           Returns (UINT32_MAX, m\<lparr>distanceSensor := Some s1\<rparr>, w1)"
    by (simp add: StateMachine_MeasureDistance_answer [where sns = sns, OF assms(1) assms(2)])
  have b: "StateMachine_MeasureDistance sns' m w =
           Returns (UINT32_MAX, m\<lparr>distanceSensor := Some s1\<rparr>, w1)"
    by (simp add: StateMachine_MeasureDistance_answer [where sns = sns', OF assms(1) assms(3)])
  have c: "Update sns lights m w = Update sns' lights m w"
    by (simp add: Update_def a b)
  show ?thesis using a b c by simp
qed

theorem Timeout_is_sampled_as_UINT32_MAX_witness:
  "distanceSensor approaching_machine = Some ()
   \<and> ConstantSensor RESULT_TIMEOUT 0 Call_MeasureDistance () 0 (quiet_board 1000) =
       Some (RESULT_TIMEOUT, 0, (), quiet_board 1000)
   \<and> ConstantSensor RESULT_OK UINT32_MAX Call_MeasureDistance () 0 (quiet_board 1000) =
       Some (RESULT_OK, UINT32_MAX, (), quiet_board 1000)
   \<and> StateMachine_MeasureDistance (ConstantSensor RESULT_TIMEOUT 0) approaching_machine (quiet_board 1000) =
       Returns (UINT32_MAX, approaching_machine, quiet_board 1000)
   \<and> Update (ConstantSensor RESULT_TIMEOUT 0) RecordingLight approaching_machine (quiet_board 1000) =
       Update (ConstantSensor RESULT_OK UINT32_MAX) RecordingLight approaching_machine (quiet_board 1000)
   \<and> exec_bind
         (Update (ConstantSensor RESULT_OK UINT32_MAX) RecordingLight approaching_machine (quiet_board 1000))
         (\<lambda>(m, w). Returns (state m, previousDistance m, trafficLight m)) =
       Returns (SubjectApproaching, UINT32_MAX, Some [Call_SetAllLightsOff])"
proof -
  have h: "distanceSensor approaching_machine = Some ()"
    "ConstantSensor RESULT_TIMEOUT 0 Call_MeasureDistance () 0 (quiet_board 1000) =
       Some (RESULT_TIMEOUT, 0, (), quiet_board 1000)"
    "ConstantSensor RESULT_OK UINT32_MAX Call_MeasureDistance () 0 (quiet_board 1000) =
       Some (RESULT_OK, UINT32_MAX, (), quiet_board 1000)"
    by (simp_all add: approaching_machine_def demo_machine_def ConstantSensor_def)
  have e: "approaching_machine\<lparr>distanceSensor := Some ()\<rparr> = approaching_machine"
    by (simp add: approaching_machine_def demo_machine_def)
  note T = Timeout_is_sampled_as_UINT32_MAX [where sns = "ConstantSensor RESULT_TIMEOUT 0"
      and sns' = "ConstantSensor RESULT_OK UINT32_MAX" and lights = RecordingLight, OF h]
  have r: "exec_bind
         (Update (ConstantSensor RESULT_OK UINT32_MAX) RecordingLight approaching_machine (quiet_board 1000))
         (\<lambda>(m, w). Returns (state m, previousDistance m, trafficLight m)) =
       Returns (SubjectApproaching, UINT32_MAX, Some [Call_SetAllLightsOff])"
    by (simp add: approaching_machine_def cycle_defs)
  show ?thesis
    using h T r by (simp add: e)
qed

text \<open>
  C4 as the specification states it fails where it says that the sample is an explicit marker
  and never a numeric sentinel: the sample after a timeout is the sample of a
  successful reading of 4294967295 millimetres.
\<close>

theorem Timeout_sample_is_a_number:
  "StateMachine_MeasureDistance (ConstantSensor RESULT_TIMEOUT 0) (demo_machine ()) (quiet_board 0) =
     Returns (4294967295, demo_machine (), quiet_board 0)
   \<and> StateMachine_MeasureDistance (ConstantSensor RESULT_OK 4294967295) (demo_machine ()) (quiet_board 0) =
     Returns (4294967295, demo_machine (), quiet_board 0)"
  by (simp add: cycle_defs)

subsection \<open>Holding still\<close>

text \<open>
  C6.  An update in \<open>SubjectApproaching\<close> or \<open>SubjectRetreating\<close> whose sample was
  taken, whose tier command was accepted and whose direction is \<open>Stopped\<close>: if
  \<open>deltaT\<close>, the time since \<open>_previousTime\<close>, exceeds \<open>holdingTimeThresholdMs\<close>, all
  lights are switched off after the tier command and the next state is \<open>Idle\<close>;
  otherwise the state stays as it was.
\<close>

theorem Update_stationary_hold:
  assumes i: "initDone m"
    and st: "state m = SubjectApproaching \<or> state m = SubjectRetreating"
    and md: "StateMachine_MeasureDistance sns m w = Returns (distance, m1, w1)"
    and t1: "millis w1 = (time, w2)"
    and t2: "millis w2 = (now, w3)"
    and dir: "GetMovingDirection (movingTimeThresholdMs m) (movingDistanceDetectionThresholdMm m)
               (now - previousTime m) (deltaD_of distance (previousDistance m)) = Stopped"
    and tl: "SetTrafficLights lights distance (m1\<lparr>previousDistance := distance\<rparr>) w3 = Returns (m2, w4)"
  shows "(holdingTimeThresholdMs m < now - previousTime m \<longrightarrow>
           (\<exists>m3 w5. StateMachine_SetAllLightsOff lights m2 w4 = Returns (m3, w5)
              \<and> Update sns lights m w = Returns (m3\<lparr>previousState := state m, state := Idle\<rparr>, w5)))
       \<and> (\<not> holdingTimeThresholdMs m < now - previousTime m \<longrightarrow>
           Update sns lights m w = Returns (m2\<lparr>previousState := state m, state := state m\<rparr>, w4))"
proof -
  let ?m' = "m1\<lparr>previousDistance := distance\<rparr>"
  obtain s1 where m1: "m1 = m\<lparr>distanceSensor := Some s1\<rparr>"
    using StateMachine_MeasureDistance_Returns [OF md] by blast
  have f1: "state m1 = state m" "previousTime m1 = previousTime m"
    "previousDistance m1 = previousDistance m"
    "movingTimeThresholdMs m1 = movingTimeThresholdMs m"
    "movingDistanceDetectionThresholdMm m1 = movingDistanceDetectionThresholdMm m"
    by (simp_all add: m1)
  obtain t1' where m2: "m2 = ?m'\<lparr>trafficLight := Some t1'\<rparr>"
    using SetTrafficLights_Returns [OF tl] by auto
  have f2: "state m2 = state m" "holdingTimeThresholdMs m2 = holdingTimeThresholdMs m"
    "trafficLight m2 = Some t1'"
    by (simp_all add: m2 m1)
  obtain t3 w5 where
    off: "StateMachine_SetAllLightsOff lights m2 w4 = Returns (m2\<lparr>trafficLight := Some t3\<rparr>, w5)"
    using StateMachine_SetAllLightsOff_Returns [OF f2(3), of lights w4] by blast
  have s': "state ?m' = state m" by (simp add: f1)
  have sw: "Update_switch lights distance time (now - previousTime m) Stopped ?m' w3 =
            (if holdingTimeThresholdMs m < now - previousTime m
             then Returns (Idle, m2\<lparr>trafficLight := Some t3\<rparr>, w5)
             else Returns (state m, m2, w4))"
    using st by (auto simp add: Update_switch_def s' tl off f2)
  have up: "Update sns lights m w =
      exec_bind (Update_switch lights distance time (now - previousTime m) Stopped ?m' w3)
        (\<lambda>(nextState, m3, w4). Returns (m3\<lparr>previousState := state m3, state := nextState\<rparr>, w4))"
    using i by (simp add: Update_def md t1 t2 f1 dir Let_def)
  show ?thesis
    by (simp add: up sw off f2)
qed


theorem Update_stationary_hold_witness:
  "initDone approaching_machine
   \<and> state approaching_machine = SubjectApproaching
   \<and> holdingTimeThresholdMs approaching_machine < 5000 - previousTime approaching_machine
   \<and> exec_bind (Update (ConstantSensor RESULT_OK 1000) RecordingLight approaching_machine (quiet_board 5000))
         (\<lambda>(m, w). Returns (state m, trafficLight m)) =
       Returns (Idle, Some [Call_TurnOn GreenLight, Call_SetAllLightsOff])
   \<and> \<not> holdingTimeThresholdMs approaching_machine < 1000 - previousTime approaching_machine
   \<and> exec_bind (Update (ConstantSensor RESULT_OK 1000) RecordingLight approaching_machine (quiet_board 1000))
         (\<lambda>(m, w). Returns (state m, trafficLight m)) =
       Returns (SubjectApproaching, Some [Call_TurnOn GreenLight])"
proof -
  let ?m = approaching_machine
  let ?sns = "ConstantSensor RESULT_OK 1000 :: unit IDistanceSensor"
  let ?m2 = "?m\<lparr>trafficLight := Some [Call_TurnOn GreenLight]\<rparr>"
  have i: "initDone ?m" and st: "state ?m = SubjectApproaching \<or> state ?m = SubjectRetreating"
    by (simp_all add: approaching_machine_def demo_machine_def)
  have md: "StateMachine_MeasureDistance ?sns ?m w = Returns (1000, ?m, w)" for w
    by (simp add: StateMachine_MeasureDistance_def ConstantSensor_def approaching_machine_def
        demo_machine_def)
  have dir: "GetMovingDirection (movingTimeThresholdMs ?m) (movingDistanceDetectionThresholdMm ?m)
               (now - previousTime ?m) (deltaD_of 1000 (previousDistance ?m)) = Stopped" for now
    by (simp add: GetMovingDirection_def deltaD_of_def abs_i32_def approaching_machine_def
        demo_machine_def)
  have tl: "SetTrafficLights RecordingLight 1000 (?m\<lparr>previousDistance := 1000\<rparr>) w = Returns (?m2, w)" for w
    by (simp add: SetTrafficLights_def trafficLight_call_def RecordingLight_def
        assert_result_ok_def approaching_machine_def demo_machine_def)
  have off: "StateMachine_SetAllLightsOff RecordingLight ?m2 w =
      Returns (?m\<lparr>trafficLight := Some [Call_TurnOn GreenLight, Call_SetAllLightsOff]\<rparr>, w)" for w
    by (simp add: StateMachine_SetAllLightsOff_def trafficLight_call_def RecordingLight_def)
  have v: "holdingTimeThresholdMs ?m = 3000" "previousTime ?m = 0" "state ?m = SubjectApproaching"
    by (simp_all add: approaching_machine_def demo_machine_def)
  note late = Update_stationary_hold [where sns = ?sns and lights = RecordingLight,
      OF i st md millis_quiet_board0 millis_quiet_board dir tl, of 5000]
  note early = Update_stationary_hold [where sns = ?sns and lights = RecordingLight,
      OF i st md millis_quiet_board0 millis_quiet_board dir tl, of 1000]
  have a: "exec_bind (Update ?sns RecordingLight ?m (quiet_board 5000))
         (\<lambda>(m, w). Returns (state m, trafficLight m)) =
       Returns (Idle, Some [Call_TurnOn GreenLight, Call_SetAllLightsOff])"
    using late by (auto simp add: v off)
  have b: "exec_bind (Update ?sns RecordingLight ?m (quiet_board 1000))
         (\<lambda>(m, w). Returns (state m, trafficLight m)) =
       Returns (SubjectApproaching, Some [Call_TurnOn GreenLight])"
    using early by (auto simp add: v)
  show ?thesis
    using i a b by (simp add: v)
qed

subsection \<open>The state Error\<close>

lemma Update_switch_Error:
  "state m = Error \<Longrightarrow>
   Update_switch lights distance time deltaT movingDirection m w =
     AssertFailed ''_state != State::Error''"
  by (simp add: Update_switch_def)

lemma Update_Error_after_sample:
  assumes "initDone m" "state m = Error"
    and "StateMachine_MeasureDistance sns m w = Returns (distance, m1, w1)"
  shows "Update sns lights m w = AssertFailed ''_state != State::Error''"
proof -
  obtain s1 where m1: "m1 = m\<lparr>distanceSensor := Some s1\<rparr>"
    using StateMachine_MeasureDistance_Returns [OF assms(3)] by blast
  have "state (m1\<lparr>previousDistance := distance\<rparr>) = Error"
    using assms(2) by (simp add: m1)
  then show ?thesis
    using assms(1) assms(3)
    by (simp add: Update_def Let_def Update_switch_Error split: prod.split)
qed

lemma Update_Error_never_returns:
  assumes "state m = Error"
  shows "Update sns lights m w \<noteq> Returns r"
proof (cases "initDone m")
  case False
  then show ?thesis by (simp add: Update_def)
next
  case True
  show ?thesis
  proof (cases "StateMachine_MeasureDistance sns m w")
    case (Returns x)
    obtain distance m1 w1 where x: "x = (distance, m1, w1)" by (cases x) auto
    show ?thesis
      using Update_Error_after_sample [OF True assms, of sns w distance m1 w1 lights] Returns x
      by simp
  qed (simp_all add: Update_def True)
qed

text \<open>
  C7, amended.  No update that starts in \<open>Error\<close> returns, so none leaves
  \<open>Error\<close> for another state.  The update first takes a sample: if the sensor
  answers \<open>RESULT_OK\<close> or \<open>RESULT_TIMEOUT\<close> the update halts on the failed assertion
  \<open>_state != State::Error\<close>; if it answers \<open>RESULT_DEV_ERR\<close> the board is restarted
  after a delay of a second and no assertion fails; if it answers \<open>RESULT_NOT_READY\<close> or any other code the
  update halts on the failed assertion of \<open>StateMachine::MeasureDistance\<close>.
\<close>

theorem Update_in_Error:
  "state m = Error \<longrightarrow>
     (\<forall>r. Update sns lights m w \<noteq> Returns r)
     \<and> (initDone m \<and> distanceSensor m = Some s
          \<and> sns Call_MeasureDistance s 0 w = Some (result, d, s1, w1) \<longrightarrow>
          Update sns lights m w =
            (if result = RESULT_OK \<or> result = RESULT_TIMEOUT
               then AssertFailed ''_state != State::Error''
             else if result = RESULT_DEV_ERR then Restarted (delay 1000 w1)
             else if result = RESULT_NOT_READY then AssertFailed ''result != RESULT_NOT_READY''
             else AssertFailed ''false''))"
proof (intro impI conjI allI)
  fix r
  assume "state m = Error"
  then show "Update sns lights m w \<noteq> Returns r"
    by (rule Update_Error_never_returns)
next
  assume e: "state m = Error"
    and "initDone m \<and> distanceSensor m = Some s
          \<and> sns Call_MeasureDistance s 0 w = Some (result, d, s1, w1)"
  then have i: "initDone m" and ds: "distanceSensor m = Some s"
    and a: "sns Call_MeasureDistance s 0 w = Some (result, d, s1, w1)"
    by simp_all
  note md = StateMachine_MeasureDistance_answer [where sns = sns, OF ds a]
  show "Update sns lights m w =
            (if result = RESULT_OK \<or> result = RESULT_TIMEOUT
               then AssertFailed ''_state != State::Error''
             else if result = RESULT_DEV_ERR then Restarted (delay 1000 w1)
             else if result = RESULT_NOT_READY then AssertFailed ''result != RESULT_NOT_READY''
             else AssertFailed ''false'')"
  proof (cases "result = RESULT_OK \<or> result = RESULT_TIMEOUT")
    case True
    then obtain distance where
      "StateMachine_MeasureDistance sns m w = Returns (distance, m\<lparr>distanceSensor := Some s1\<rparr>, w1)"
      using md by auto
    from Update_Error_after_sample [OF i e this] True show ?thesis by simp
  next
    case False
    then show ?thesis using i md by (simp add: Update_def)
  qed
qed

theorem Update_in_Error_witness:
  "state faulted_machine = Error
   \<and> initDone faulted_machine
   \<and> distanceSensor faulted_machine = Some ()
   \<and> Update (ConstantSensor RESULT_OK 1000) RecordingLight faulted_machine (quiet_board 0) =
       AssertFailed ''_state != State::Error''
   \<and> Update (ConstantSensor RESULT_TIMEOUT 0) RecordingLight faulted_machine (quiet_board 0) =
       AssertFailed ''_state != State::Error''
   \<and> Update (ConstantSensor RESULT_NOT_READY 0) RecordingLight faulted_machine (quiet_board 0) =
       AssertFailed ''result != RESULT_NOT_READY''
   \<and> Update (ConstantSensor RESULT_DEV_ERR 0) RecordingLight faulted_machine (quiet_board 0) =
       Restarted (delay 1000 (quiet_board 0))"
proof -
  have h: "state faulted_machine = Error" "initDone faulted_machine"
    "distanceSensor faulted_machine = Some ()"
    by (simp_all add: faulted_machine_def demo_machine_def)
  have a: "ConstantSensor r v Call_MeasureDistance () 0 (quiet_board 0) =
      Some (r, v, (), quiet_board 0)" for r v
    by (simp add: ConstantSensor_def)
  note T = Update_in_Error [where m = faulted_machine and lights = RecordingLight
      and w = "quiet_board 0" and s = "()" and ?s1.0 = "()" and ?w1.0 = "quiet_board 0"]
  show ?thesis
    using h
      T [where sns = "ConstantSensor RESULT_OK 1000" and result = RESULT_OK and d = 1000]
      T [where sns = "ConstantSensor RESULT_TIMEOUT 0" and result = RESULT_TIMEOUT and d = 0]
      T [where sns = "ConstantSensor RESULT_NOT_READY 0" and result = RESULT_NOT_READY and d = 0]
      T [where sns = "ConstantSensor RESULT_DEV_ERR 0" and result = RESULT_DEV_ERR and d = 0]
    by (simp add: a)
qed

text \<open>
  C7 as the specification states it fails where it says that every update in \<open>Error\<close> halts
  on a failed assertion: the machine that a failed lights test has put in \<open>Error\<close>
  restarts the board when the sensor then answers \<open>RESULT_DEV_ERR\<close>.
\<close>

theorem Update_in_Error_restarts:
  "exec_bind (Update (ConstantSensor RESULT_OK 1000) BrokenLight (demo_machine ()) (quiet_board 0))
       (\<lambda>(m, w). Returns m) = Returns faulted_machine
   \<and> state faulted_machine = Error
   \<and> Update (ConstantSensor RESULT_DEV_ERR 0) RecordingLight faulted_machine (quiet_board 0) =
       Restarted (delay 1000 (quiet_board 0))"
  by (simp add: faulted_machine_def cycle_defs)

subsection \<open>The wrap-around of deltaD\<close>

lemma UINT32_MAX_minus_one: "UINT32_MAX = - 1"
  by (simp add: UINT32_MAX_def)

lemma deltaD_of_UINT32_MAX: "deltaD_of d UINT32_MAX = d + 1"
  by (simp add: deltaD_of_def UINT32_MAX_minus_one word_less_def not_less word_le_def [symmetric])

lemma sint_succ32:
  assumes "uint (d :: u32) < 2147483647"
  shows "sint (d + 1) = uint d + 1"
proof -
  have "uint (d + 1) = (uint d + 1) mod 4294967296"
    by (simp add: uint_word_ariths)
  also have "\<dots> = uint d + 1"
    using assms uint_ge_0 [of d] by (intro mod_pos_pos_trivial) linarith+
  finally have u: "uint (d + 1) = uint d + 1" .
  show ?thesis
    using assms by (simp add: sint_uint32 u)
qed

lemma deltaD_of_negated:
  assumes "d < p"
  shows "deltaD_of d p = - (p - d)"
  using assms by (simp add: deltaD_of_def not_less_iff_gr_or_eq)

lemma sint_neg32:
  assumes "sint (x :: u32) \<noteq> - 2147483648"
  shows "sint (- x) = - sint x"
proof -
  define k where "k = uint x"
  have b: "0 \<le> k" "k < 4294967296"
    using uint_lt2p [of x] by (simp_all add: k_def)
  have ne: "k \<noteq> 2147483648"
    using assms by (auto simp add: sint_uint32 k_def)
  show ?thesis
    using b ne by (simp add: sint_uint32 uint_neg32 k_def [symmetric])
qed

text \<open>
  C9.  With \<open>p\<close> the previous distance and \<open>d\<close> the current one, \<open>d < p\<close>:
  \<open>deltaD\<close> is the negation, wrapped to 32 bits, of \<open>p - d\<close> read as an \<open>int32_t\<close>,
  and the plain negation unless that reading is \<open>INT32_MIN\<close>.  With
  \<open>p = UINT32_MAX\<close>, \<open>deltaD\<close> is \<open>d + 1\<close> as a 32-bit word, and for \<open>d + 1\<close> within
  the \<open>int32_t\<close> range (\<open>d\<close> below 2147483647 mm) it is the positive number
  \<open>d + 1\<close>, so that beyond both thresholds the direction is \<open>Backward\<close>
  (Retreating).  \<open>UINT32_MAX\<close> is the previous
  distance after \<open>Init\<close> and the sample after a timeout, and an update in \<open>Idle\<close>
  with that previous distance, a reading \<open>d\<close> and both thresholds exceeded goes to
  \<open>SubjectRetreating\<close>.
\<close>

theorem deltaD_wraparound:
  "(d < p \<longrightarrow> sint (deltaD_of d p) = signed_take_bit 31 (- sint (p - d)))
   \<and> (d < p \<and> sint (p - d) \<noteq> - 2147483648 \<longrightarrow> sint (deltaD_of d p) = - sint (p - d))
   \<and> deltaD_of d UINT32_MAX = d + 1
   \<and> (uint d < 2147483647 \<longrightarrow>
        sint (deltaD_of d UINT32_MAX) = uint d + 1 \<and> 0 < sint (deltaD_of d UINT32_MAX))
   \<and> (uint d < 2147483647 \<and> uint tT < uint deltaT \<and> uint tD < uint d + 1 \<longrightarrow>
        GetMovingDirection tT tD deltaT (deltaD_of d UINT32_MAX) = Backward)
   \<and> (\<forall>m'. StateMachine_Init c m0 = Returns m' \<longrightarrow> previousDistance m' = UINT32_MAX)
   \<and> (distanceSensor m = Some s \<and> sns Call_MeasureDistance s 0 w = Some (RESULT_TIMEOUT, x, s1, w1) \<longrightarrow>
        StateMachine_MeasureDistance sns m w =
          Returns (UINT32_MAX, m\<lparr>distanceSensor := Some s1\<rparr>, w1))
   \<and> (initDone m \<and> state m = Idle \<and> previousDistance m = UINT32_MAX
        \<and> StateMachine_MeasureDistance sns m w = Returns (d, m1, w1)
        \<and> uint d < 2147483647
        \<and> uint (movingTimeThresholdMs m) < uint (fst (millis (snd (millis w1))) - previousTime m)
        \<and> uint (movingDistanceDetectionThresholdMm m) < uint d + 1 \<longrightarrow>
        (\<exists>m' w'. Update sns lights m w = Returns (m', w')
           \<and> state m' = SubjectRetreating \<and> previousDistance m' = d))"
proof (intro conjI impI allI)
  assume a: "d < p"
  show "sint (deltaD_of d p) = signed_take_bit 31 (- sint (p - d))"
    unfolding deltaD_of_negated [OF a] by (simp only: sint_word_minus) simp
next
  assume a: "d < p \<and> sint (p - d) \<noteq> - 2147483648"
  then have l: "d < p" and n: "sint (p - d) \<noteq> - 2147483648"
    by simp_all
  show "sint (deltaD_of d p) = - sint (p - d)"
    unfolding deltaD_of_negated [OF l] by (rule sint_neg32 [OF n])
next
  show "deltaD_of d UINT32_MAX = d + 1"
    by (rule deltaD_of_UINT32_MAX)
next
  assume "uint d < 2147483647"
  then show "sint (deltaD_of d UINT32_MAX) = uint d + 1"
    by (simp add: deltaD_of_UINT32_MAX sint_succ32)
next
  assume "uint d < 2147483647"
  then have "sint (deltaD_of d UINT32_MAX) = uint d + 1"
    by (simp add: deltaD_of_UINT32_MAX sint_succ32)
  then show "0 < sint (deltaD_of d UINT32_MAX)"
    using uint_ge_0 [of d] by linarith
next
  assume a: "uint d < 2147483647 \<and> uint tT < uint deltaT \<and> uint tD < uint d + 1"
  then have s: "sint (deltaD_of d UINT32_MAX) = uint d + 1"
    by (simp add: deltaD_of_UINT32_MAX sint_succ32)
  have p: "0 \<le> uint d" by simp
  have g: "GetMovingDirection tT tD deltaT x =
     (if uint tT < uint deltaT \<and> uint tD < \<bar>sint x\<bar>
      then (if 0 < sint x then Backward else Forward)
      else Stopped)" for x
    unfolding GetMovingDirection_def word_less_def word_sless_alt uint_abs_i32
    by simp
  show "GetMovingDirection tT tD deltaT (deltaD_of d UINT32_MAX) = Backward"
    using a p unfolding g s by simp
next
  fix m' :: "('a, 'b) StateMachine"
  assume "StateMachine_Init c m0 = Returns m'"
  then show "previousDistance m' = UINT32_MAX"
    by (auto simp add: StateMachine_Init_def split: if_splits)
next
  assume a: "distanceSensor m = Some s \<and> sns Call_MeasureDistance s 0 w = Some (RESULT_TIMEOUT, x, s1, w1)"
  then have ds: "distanceSensor m = Some s"
    and an: "sns Call_MeasureDistance s 0 w = Some (RESULT_TIMEOUT, x, s1, w1)"
    by simp_all
  show "StateMachine_MeasureDistance sns m w =
          Returns (UINT32_MAX, m\<lparr>distanceSensor := Some s1\<rparr>, w1)"
    by (simp add: StateMachine_MeasureDistance_answer [where sns = sns, OF ds an])
next
  assume a: "initDone m \<and> state m = Idle \<and> previousDistance m = UINT32_MAX
        \<and> StateMachine_MeasureDistance sns m w = Returns (d, m1, w1)
        \<and> uint d < 2147483647
        \<and> uint (movingTimeThresholdMs m) < uint (fst (millis (snd (millis w1))) - previousTime m)
        \<and> uint (movingDistanceDetectionThresholdMm m) < uint d + 1"
  then have i: "initDone m" and st: "state m = Idle" and p: "previousDistance m = UINT32_MAX"
    and md: "StateMachine_MeasureDistance sns m w = Returns (d, m1, w1)"
    and small: "uint d < 2147483647"
    and tt: "uint (movingTimeThresholdMs m) < uint (fst (millis (snd (millis w1))) - previousTime m)"
    and td: "uint (movingDistanceDetectionThresholdMm m) < uint d + 1"
    by simp_all
  obtain s1' where m1: "m1 = m\<lparr>distanceSensor := Some s1'\<rparr>"
    using StateMachine_MeasureDistance_Returns [OF md] by blast
  obtain time w2 where t1: "millis w1 = (time, w2)" by (cases "millis w1") auto
  obtain now w3 where t2: "millis w2 = (now, w3)" by (cases "millis w2") auto
  have f1: "state m1 = Idle" "previousTime m1 = previousTime m"
    "previousDistance m1 = UINT32_MAX"
    "movingTimeThresholdMs m1 = movingTimeThresholdMs m"
    "movingDistanceDetectionThresholdMm m1 = movingDistanceDetectionThresholdMm m"
    by (simp_all add: m1 st p)
  have s: "sint (deltaD_of d UINT32_MAX) = uint d + 1"
    using small by (simp add: deltaD_of_UINT32_MAX sint_succ32)
  have nn: "0 \<le> uint d" by simp
  have g: "GetMovingDirection tT tD deltaT x =
     (if uint tT < uint deltaT \<and> uint tD < \<bar>sint x\<bar>
      then (if 0 < sint x then Backward else Forward)
      else Stopped)" for tT tD deltaT x
    unfolding GetMovingDirection_def word_less_def word_sless_alt uint_abs_i32
    by simp
  have dir: "GetMovingDirection (movingTimeThresholdMs m) (movingDistanceDetectionThresholdMm m)
        (now - previousTime m) (deltaD_of d UINT32_MAX) = Backward"
    using tt td nn unfolding g s by (simp add: t1 t2)
  have sw: "Update_switch lights d time (now - previousTime m) Backward
              (m1\<lparr>previousDistance := d\<rparr>) w3 =
            Returns (SubjectRetreating, m1\<lparr>previousDistance := d, previousTime := time\<rparr>, w3)"
    by (simp add: Update_switch_def f1)
  have "Update sns lights m w =
      Returns (m1\<lparr>previousDistance := d, previousTime := time,
                 previousState := Idle, state := SubjectRetreating\<rparr>, w3)"
    using i by (simp add: Update_def md t1 t2 f1 dir sw Let_def)
  then show "\<exists>m' w'. Update sns lights m w = Returns (m', w')
           \<and> state m' = SubjectRetreating \<and> previousDistance m' = d"
    by simp
qed

theorem deltaD_wraparound_witness:
  "StateMachine_Init (demo_config ()) StateMachine_ctor = Returns (demo_machine ())
   \<and> previousDistance (demo_machine ()) = UINT32_MAX
   \<and> exec_bind
         (Update (ConstantSensor RESULT_TIMEOUT 0) RecordingLight (demo_machine ()) (quiet_board 1000))
         (\<lambda>(m, w). Returns m) = Returns idle_machine
   \<and> state idle_machine = Idle
   \<and> previousDistance idle_machine = UINT32_MAX
   \<and> deltaD_of 1500 UINT32_MAX = 1501
   \<and> sint (deltaD_of 1500 UINT32_MAX) = 1501
   \<and> GetMovingDirection 500 20 1000 (deltaD_of 1500 UINT32_MAX) = Backward
   \<and> exec_bind
         (Update (ConstantSensor RESULT_OK 1500) RecordingLight idle_machine (quiet_board 2000))
         (\<lambda>(m, w). Returns (state m, previousDistance m)) = Returns (SubjectRetreating, 1500)
   \<and> (1000 :: u32) < 3000
   \<and> sint (deltaD_of 1000 3000) = - 2000"
proof -
  have init: "StateMachine_Init (demo_config ()) StateMachine_ctor = Returns (demo_machine ())"
    by (rule demo_machine_Init)
  have first: "exec_bind
         (Update (ConstantSensor RESULT_TIMEOUT 0) RecordingLight (demo_machine ()) (quiet_board 1000))
         (\<lambda>(m, w). Returns m) = Returns idle_machine"
    by (simp add: idle_machine_def cycle_defs)
  have v: "initDone idle_machine" "state idle_machine = Idle"
    "previousDistance idle_machine = UINT32_MAX" "previousTime idle_machine = 1000"
    "movingTimeThresholdMs idle_machine = 500"
    "movingDistanceDetectionThresholdMm idle_machine = 20"
    by (simp_all add: idle_machine_def demo_machine_def)
  have md: "StateMachine_MeasureDistance (ConstantSensor RESULT_OK 1500) idle_machine (quiet_board 2000) =
      Returns (1500, idle_machine, quiet_board 2000)"
    by (simp add: StateMachine_MeasureDistance_def ConstantSensor_def idle_machine_def demo_machine_def)
  have now: "fst (millis (snd (millis (quiet_board 2000)))) = 2000"
    by (simp add: millis_def quiet_board_def)
  note T = deltaD_wraparound [where d = 1500 and tT = 500 and tD = 20 and deltaT = 1000
      and c = "demo_config ()" and ?m0.0 = StateMachine_ctor
      and m = idle_machine and sns = "ConstantSensor RESULT_OK 1500" and w = "quiet_board 2000"
      and ?m1.0 = idle_machine and ?w1.0 = "quiet_board 2000" and lights = RecordingLight
      and p = 3000 and s = "()" and ?s1.0 = "()" and x = 0]
  note G = deltaD_wraparound [where d = 1000 and p = 3000 and tT = 500 and tD = 20 and deltaT = 1000
      and c = "demo_config ()" and ?m0.0 = StateMachine_ctor
      and m = idle_machine and sns = "ConstantSensor RESULT_OK 1500" and w = "quiet_board 2000"
      and ?m1.0 = idle_machine and ?w1.0 = "quiet_board 2000" and lights = RecordingLight
      and s = "()" and ?s1.0 = "()" and x = 0]
  have p: "previousDistance (demo_machine ()) = UINT32_MAX"
    using T init by blast
  have d1: "deltaD_of 1500 UINT32_MAX = 1501"
    using T by simp
  have d2: "sint (deltaD_of 1500 UINT32_MAX) = 1501"
    using T by simp
  have pre: "uint (1500 :: u32) < 2147483647 \<and> uint (500 :: u32) < uint (1000 :: u32)
      \<and> uint (20 :: u32) < uint (1500 :: u32) + 1"
    by simp
  have d3: "GetMovingDirection 500 20 1000 (deltaD_of 1500 UINT32_MAX) = Backward"
    using T pre by blast
  have pre2: "initDone idle_machine \<and> state idle_machine = Idle
        \<and> previousDistance idle_machine = UINT32_MAX
        \<and> StateMachine_MeasureDistance (ConstantSensor RESULT_OK 1500) idle_machine (quiet_board 2000) =
            Returns (1500, idle_machine, quiet_board 2000)
        \<and> uint (1500 :: u32) < 2147483647
        \<and> uint (movingTimeThresholdMs idle_machine)
            < uint (fst (millis (snd (millis (quiet_board 2000)))) - previousTime idle_machine)
        \<and> uint (movingDistanceDetectionThresholdMm idle_machine) < uint (1500 :: u32) + 1"
    by (simp add: v md now)
  have "\<exists>m' w'. Update (ConstantSensor RESULT_OK 1500) RecordingLight idle_machine (quiet_board 2000) =
          Returns (m', w') \<and> state m' = SubjectRetreating \<and> previousDistance m' = 1500"
    using T pre2 by blast
  then have second: "exec_bind
         (Update (ConstantSensor RESULT_OK 1500) RecordingLight idle_machine (quiet_board 2000))
         (\<lambda>(m, w). Returns (state m, previousDistance m)) = Returns (SubjectRetreating, 1500)"
    by auto
  have lt: "(1000 :: u32) < 3000" by simp
  have ne: "(1000 :: u32) < 3000 \<and> sint (3000 - 1000 :: u32) \<noteq> - 2147483648" by simp
  have "sint (deltaD_of 1000 3000) = - sint (3000 - 1000 :: u32)"
    using G ne by blast
  then have g: "sint (deltaD_of 1000 3000) = - 2000"
    by simp
  show ?thesis
    using init p first v d1 d2 d3 second lt g by simp
qed

section \<open>The conversions between pulse width and distance\<close>

subsection \<open>The error of one rounding\<close>

text \<open>
  Rounding to the nearest integer moves a number by at most one half, so rounding a
  normal number to binary32 moves it by at most the fraction \<open>1 / 16777216\<close> of itself.
\<close>

lemma round_half_even_error: "\<bar>of_int (round_half_even y) - y\<bar> \<le> 1 / 2"
proof -
  define f where "f = \<lfloor>y\<rfloor>"
  define r where "r = y - of_int f"
  have r0: "0 \<le> r" and r1: "r < 1"
    unfolding r_def f_def by linarith+
  have y: "y = of_int f + r" by (simp add: r_def)
  have "round_half_even y = (if r < 1 / 2 then f else if 1 / 2 < r then f + 1 else if even f then f else f + 1)"
    by (simp add: round_half_even_def Let_def f_def r_def)
  then show ?thesis
    using r0 r1 by (auto simp add: y)
qed

lemma round_half_even_nonneg: "0 \<le> y \<Longrightarrow> 0 \<le> round_half_even y"
  by (auto simp add: round_half_even_def Let_def)

lemma b32_exponent_le:
  assumes "2 powi (- 126) \<le> x"
  shows "2 powi (b32_exponent x) \<le> x"
proof -
  have xpos: "0 < x"
    using assms zero_less_power_int [of "2 :: rat" "- 126"] by linarith
  obtain p q where pq: "quotient_of x = (p, q)" by (cases "quotient_of x") auto
  have q: "0 < q" using quotient_of_denom_pos [OF pq] .
  have x: "x = of_int p / of_int q" using quotient_of_div [OF pq] .
  have p: "0 < p"
    using xpos q by (simp add: x zero_less_divide_iff)
  define e0 where "e0 = bitlen p - bitlen q"
  have bp: "2 ^ nat (bitlen p - 1) \<le> p" using bitlen_bounds [OF p] by simp
  have bq: "q < 2 ^ nat (bitlen q)" using bitlen_bounds [OF q] by simp
  have bp1: "1 \<le> bitlen p" using p bitlen_eq_zero_iff [of p] bitlen_nonneg [of p] by linarith
  have bq1: "1 \<le> bitlen q" using q bitlen_eq_zero_iff [of q] bitlen_nonneg [of q] by linarith
  have low: "2 powi (e0 - 1) \<le> x"
  proof -
    have "(2 :: rat) powi (e0 - 1) = 2 powi (bitlen p - 1) / 2 powi (bitlen q)"
      by (simp add: e0_def power_int_diff [symmetric] algebra_simps)
    also have "\<dots> = 2 ^ nat (bitlen p - 1) / 2 ^ nat (bitlen q)"
      using bp1 bq1 by (simp add: power_int_def)
    also have "\<dots> \<le> of_int p / of_int q"
    proof (rule frac_le)
      show "(0 :: rat) \<le> of_int p" using p by simp
      show "(0 :: rat) < of_int q" using q by simp
      have "(of_int (2 ^ nat (bitlen p - 1)) :: rat) \<le> of_int p"
        using bp by (simp only: of_int_le_iff)
      then show "(2 :: rat) ^ nat (bitlen p - 1) \<le> of_int p" by simp
      have "(of_int q :: rat) < of_int (2 ^ nat (bitlen q))"
        using bq by (simp only: of_int_less_iff)
      then show "(of_int q :: rat) \<le> 2 ^ nat (bitlen q)" by simp
    qed
    finally show ?thesis by (simp add: x)
  qed
  define e1 where "e1 = (if 2 powi e0 \<le> x then e0 else e0 - 1)"
  have e1: "2 powi e1 \<le> x"
    using low by (simp add: e1_def)
  have ex: "b32_exponent x = max (- 126) e1"
    by (simp add: b32_exponent_def pq e0_def e1_def Let_def)
  show ?thesis
    using e1 assms by (simp add: ex max_def)
qed




lemma rho_ge1: "1 \<le> rho" by (simp add: rho_def)

lemma rho_pow_ge1: "1 \<le> rho ^ k"
  using rho_ge1 by (rule one_le_power)

lemma rho_pow_mono: "k \<le> l \<Longrightarrow> rho ^ k \<le> rho ^ l"
  using rho_ge1 by (rule power_increasing [rotated])

lemma b32_round_pos:
  assumes x: "2 powi (- 126) \<le> x"
  shows "\<bar>b32_round x - x\<bar> \<le> x / 16777216" and "0 \<le> b32_round x"
proof -
  have xpos: "0 < x"
    using assms zero_less_power_int [of "2 :: rat" "- 126"] by linarith
  define e where "e = b32_exponent x"
  define ulp :: rat where "ulp = 2 powi (e - 23)"
  have ulp_pos: "0 < ulp" by (simp add: ulp_def zero_less_power_int)
  have r: "b32_round x = of_int (round_half_even (x / ulp)) * ulp"
    using xpos by (simp add: b32_round_def Let_def ulp_def e_def)
  have "b32_round x - x = (of_int (round_half_even (x / ulp)) - x / ulp) * ulp"
    using ulp_pos by (simp add: r left_diff_distrib)
  then have "\<bar>b32_round x - x\<bar> = \<bar>of_int (round_half_even (x / ulp)) - x / ulp\<bar> * \<bar>ulp\<bar>"
    by (simp only: abs_mult)
  also have "\<dots> = \<bar>of_int (round_half_even (x / ulp)) - x / ulp\<bar> * ulp"
    using ulp_pos by simp
  also have "\<dots> \<le> (1 / 2) * ulp"
    using round_half_even_error [of "x / ulp"] ulp_pos by (intro mult_right_mono) simp_all
  also have "\<dots> = 2 powi e / 16777216"
    by (simp add: ulp_def power_int_diff)
  also have "\<dots> \<le> x / 16777216"
    using b32_exponent_le [OF x] by (simp add: e_def divide_right_mono)
  finally show "\<bar>b32_round x - x\<bar> \<le> x / 16777216" .
  have "0 \<le> x / ulp" using xpos ulp_pos by simp
  then show "0 \<le> b32_round x"
    using ulp_pos round_half_even_nonneg [of "x / ulp"] by (simp add: r)
qed

lemma b32_round_close:
  assumes "x = 0 \<or> 2 powi (- 126) \<le> x"
  shows "close 1 (b32_round x) x"
proof (cases "x = 0")
  case True
  then show ?thesis by (simp add: close_def b32_round_def)
next
  case False
  then have x: "2 powi (- 126) \<le> x" using assms by simp
  have xpos: "0 < x"
    using x zero_less_power_int [of "2 :: rat" "- 126"] by linarith
  note e = b32_round_pos [OF x]
  have up: "b32_round x \<le> x + x / 16777216" using e(1) by linarith
  have lo: "x - x / 16777216 \<le> b32_round x" using e(1) by linarith
  have "x + x / 16777216 \<le> x * rho"
    using xpos by (simp add: rho_def field_simps)
  with up have a: "b32_round x \<le> x * rho ^ 1" by simp
  have "x = (x - x / 16777216) * rho"
    by (simp add: rho_def field_simps)
  also have "\<dots> \<le> b32_round x * rho"
    using lo rho_ge1 by (intro mult_right_mono) simp_all
  finally have b: "x \<le> b32_round x * rho ^ 1" by simp
  show ?thesis
    using a b e(2) xpos by (simp add: close_def)
qed

subsection \<open>Composition of roundings\<close>

lemma close_refl: "0 \<le> x \<Longrightarrow> close 0 x x"
  by (simp add: close_def)

lemma close_trans:
  assumes "close k a b" "close l b c"
  shows "close (k + l) a c"
proof -
  have p: "0 \<le> rho ^ k" "0 \<le> rho ^ l" using rho_pow_ge1 [of k] rho_pow_ge1 [of l] by linarith+
  have "c \<le> b * rho ^ l" using assms(2) by (simp add: close_def)
  also have "\<dots> \<le> (a * rho ^ k) * rho ^ l"
    using assms(1) p by (intro mult_right_mono) (simp_all add: close_def)
  finally have 1: "c \<le> a * rho ^ (k + l)" by (simp add: power_add mult.assoc)
  have "a \<le> b * rho ^ k" using assms(1) by (simp add: close_def)
  also have "\<dots> \<le> (c * rho ^ l) * rho ^ k"
    using assms(2) p by (intro mult_right_mono) (simp_all add: close_def)
  finally have 2: "a \<le> c * rho ^ (k + l)" by (simp add: power_add mult_ac)
  show ?thesis using 1 2 assms by (simp add: close_def)
qed

lemma close_mono:
  assumes "close k a x" "k \<le> l"
  shows "close l a x"
proof -
  have m: "rho ^ k \<le> rho ^ l" using assms(2) by (rule rho_pow_mono)
  have "x \<le> a * rho ^ k" using assms(1) by (simp add: close_def)
  also have "\<dots> \<le> a * rho ^ l" using assms(1) m by (intro mult_left_mono) (simp_all add: close_def)
  finally have 1: "x \<le> a * rho ^ l" .
  have "a \<le> x * rho ^ k" using assms(1) by (simp add: close_def)
  also have "\<dots> \<le> x * rho ^ l" using assms(1) m by (intro mult_left_mono) (simp_all add: close_def)
  finally have 2: "a \<le> x * rho ^ l" .
  show ?thesis using 1 2 assms(1) by (simp add: close_def)
qed

lemma close_mult:
  assumes "close k a x" "close l b y"
  shows "close (k + l) (a * b) (x * y)"
proof -
  have p: "0 \<le> rho ^ k" "0 \<le> rho ^ l" using rho_pow_ge1 [of k] rho_pow_ge1 [of l] by linarith+
  have n: "0 \<le> a" "0 \<le> x" "0 \<le> b" "0 \<le> y" using assms by (simp_all add: close_def)
  have "x * y \<le> (a * rho ^ k) * (b * rho ^ l)"
    using assms n p by (intro mult_mono) (simp_all add: close_def)
  then have 1: "x * y \<le> (a * b) * rho ^ (k + l)" by (simp add: power_add mult_ac)
  have "a * b \<le> (x * rho ^ k) * (y * rho ^ l)"
    using assms n p by (intro mult_mono) (simp_all add: close_def)
  then have 2: "a * b \<le> (x * y) * rho ^ (k + l)" by (simp add: power_add mult_ac)
  show ?thesis using 1 2 n by (simp add: close_def)
qed

lemma close_pos:
  assumes "close k a x" "0 < x"
  shows "0 < a"
proof (rule ccontr)
  assume "\<not> 0 < a"
  then have "a = 0" using assms(1) by (simp add: close_def)
  then show False using assms by (simp add: close_def)
qed

lemma close_div:
  assumes "close k a x" "close l b y" "0 < y"
  shows "close (k + l) (a / b) (x / y)"
proof -
  have b: "0 < b" using close_pos [OF assms(2) assms(3)] .
  have p: "0 < rho ^ k" "0 < rho ^ l" using rho_pow_ge1 [of k] rho_pow_ge1 [of l] by linarith+
  have n: "0 \<le> a" "0 \<le> x" using assms by (simp_all add: close_def)
  have xa: "x \<le> a * rho ^ k" and ax: "a \<le> x * rho ^ k"
    and yb: "y \<le> b * rho ^ l" and by': "b \<le> y * rho ^ l"
    using assms by (simp_all add: close_def)
  have "x * b \<le> (a * rho ^ k) * (y * rho ^ l)"
    using xa by' n b p by (intro mult_mono) simp_all
  then have "x * b \<le> (a * rho ^ (k + l)) * y" by (simp add: power_add mult_ac)
  then have 1: "x / y \<le> (a / b) * rho ^ (k + l)"
    using b assms(3) by (simp add: field_simps)
  have "a * y \<le> (x * rho ^ k) * (b * rho ^ l)"
    using ax yb n assms(3) p by (intro mult_mono) simp_all
  then have "a * y \<le> (x * rho ^ (k + l)) * b" by (simp add: power_add mult_ac)
  then have 2: "a / b \<le> (x / y) * rho ^ (k + l)"
    using b assms(3) by (simp add: field_simps)
  show ?thesis using 1 2 n b assms(3) by (simp add: close_def)
qed

lemma close_add:
  assumes "close k a x" "close k b y"
  shows "close k (a + b) (x + y)"
  using assms by (simp add: close_def distrib_right add_mono)

lemma rho_pow16: "rho ^ 16 \<le> 2"
  by (simp add: rho_def power_divide)

lemma tiny: "(2 :: rat) powi (- 126) \<le> (1 / 2 ^ 60) / 2"
  by (simp add: power_int_def power_one_over)

lemma round_step:
  assumes c: "close k y x" and k: "k \<le> 16" and x: "x = 0 \<or> 1 / 2 ^ 60 \<le> x"
  shows "close (Suc k) (b32_round y) x"
proof -
  have "y = 0 \<or> 2 powi (- 126) \<le> y"
  proof (cases "x = 0")
    case True
    then have "y = 0" using c by (simp add: close_def)
    then show ?thesis by simp
  next
    case False
    then have l: "1 / 2 ^ 60 \<le> x" using x by simp
    have y0: "0 \<le> y" using c by (simp add: close_def)
    have "x \<le> y * rho ^ k" using c by (simp add: close_def)
    also have "\<dots> \<le> y * rho ^ 16"
      using y0 rho_pow_mono [OF k] by (intro mult_left_mono) simp_all
    also have "\<dots> \<le> y * 2"
      using y0 rho_pow16 by (intro mult_left_mono) simp_all
    finally have "x / 2 \<le> y" by simp
    moreover have "(1 / 2 ^ 60) / 2 \<le> x / 2" using l by (simp add: divide_right_mono)
    ultimately show ?thesis using tiny by linarith
  qed
  then have "close 1 (b32_round y) y" by (rule b32_round_close)
  from close_trans [OF this c] show ?thesis by simp
qed

lemma tiny1: "(2 :: rat) powi (- 126) \<le> 1 / 2 ^ 60"
  using tiny by simp

lemma rat_of_uint_cases: "(of_int (uint n) :: rat) = 0 \<or> 1 \<le> (of_int (uint n) :: rat)"
proof (cases "uint n = 0")
  case True
  then show ?thesis by simp
next
  case False
  then have "1 \<le> uint n" using uint_ge_0 [of n] by linarith
  then have "(of_int 1 :: rat) \<le> of_int (uint n)" by (simp only: of_int_le_iff)
  then show ?thesis by simp
qed

lemma rat_of_uint_ge0: "0 \<le> (of_int (uint n) :: rat)"
  using uint_ge_0 [of n] by (simp only: of_int_0_le_iff)

lemma float_of_u32_close: "close 1 (float_of_u32 n) (of_int (uint n))"
proof -
  have "(of_int (uint n) :: rat) = 0 \<or> 2 powi (- 126) \<le> (of_int (uint n) :: rat)"
    using rat_of_uint_cases [of n] tiny1 by auto
  then show ?thesis unfolding float_of_u32_def by (rule b32_round_close)
qed

lemma const_close:
  assumes "1 / 2 ^ 60 \<le> c"
  shows "close 1 (b32_round c) c"
proof -
  have "c = 0 \<or> 2 powi (- 126) \<le> c" using assms tiny1 by linarith
  then show ?thesis by (rule b32_round_close)
qed

lemma float_mul_close:
  assumes "close k a x" "close l b y" "k + l \<le> 16" "x * y = 0 \<or> 1 / 2 ^ 60 \<le> x * y"
    and "n = k + l + 1"
  shows "close n (float_mul a b) (x * y)"
  unfolding float_mul_def
  using round_step [OF close_mult [OF assms(1,2)] assms(3,4)] assms(5) by simp

lemma float_div_close:
  assumes "close k a x" "close l b y" "0 < y" "k + l \<le> 16" "x / y = 0 \<or> 1 / 2 ^ 60 \<le> x / y"
    and "n = k + l + 1"
  shows "close n (float_div a b) (x / y)"
  unfolding float_div_def
  using round_step [OF close_div [OF assms(1,2,3)] assms(4,5)] assms(6) by simp

lemma float_add_close:
  assumes "close k a x" "close k b y" "k \<le> 16" "x + y = 0 \<or> 1 / 2 ^ 60 \<le> x + y"
    and "n = k + 1"
  shows "close n (float_add a b) (x + y)"
  unfolding float_add_def
  using round_step [OF close_add [OF assms(1,2)] assms(3,4)] assms(5) by simp

subsection \<open>The computed values against the closed forms\<close>

text \<open>
  \<open>SpeedOfSound\<close> rounds five times, and each conversion eleven times in all, before
  the fraction is discarded.
\<close>

lemma speedOfSound_spec_ge: "0 \<le> t \<Longrightarrow> 3314 / 10 \<le> speedOfSound_spec t"
  by (simp add: speedOfSound_spec_def)

lemma speedOfSound_spec_le: "t \<le> 1000 \<Longrightarrow> speedOfSound_spec t \<le> 3914 / 10"
  by (simp add: speedOfSound_spec_def)

lemma speedOfSound_spec_le_any: "speedOfSound_spec (of_int (uint (T :: u32))) \<le> 2 ^ 28"
proof -
  have "uint T < 2 ^ 32" using uint_lt2p [of T] by simp
  then have "uint T \<le> 4294967296" by simp
  then have "(of_int (uint T) :: rat) \<le> of_int 4294967296" by (simp only: of_int_le_iff)
  then show ?thesis by (simp add: speedOfSound_spec_def)
qed

lemma SpeedOfSound_close:
  "close 5 (SpeedOfSound T) (speedOfSound_spec (of_int (uint T)))"
proof -
  define t :: rat where "t = of_int (uint T)"
  have tc: "t = 0 \<or> 1 \<le> t" unfolding t_def by (rule rat_of_uint_cases)
  have c0: "close 1 (b32_round (3314 / 10)) (3314 / 10)" by (rule const_close) simp
  have c1: "close 1 (b32_round (6 / 10)) (6 / 10)" by (rule const_close) simp
  have ft: "close 1 (float_of_u32 T) t" unfolding t_def by (rule float_of_u32_close)
  have m: "close 3 (float_mul (b32_round (6 / 10)) (float_of_u32 T)) (6 / 10 * t)"
  proof (rule float_mul_close [OF c1 ft])
    show "6 / 10 * t = 0 \<or> 1 / 2 ^ 60 \<le> 6 / 10 * t" using tc by auto
  qed simp_all
  have ten: "close 0 (10 :: rat) 10" by (rule close_refl) simp
  have d: "close 4 (float_div (float_mul (b32_round (6 / 10)) (float_of_u32 T)) 10)
             (6 / 10 * t / 10)"
  proof (rule float_div_close [OF m ten])
    show "6 / 10 * t / 10 = 0 \<or> 1 / 2 ^ 60 \<le> 6 / 10 * t / 10" using tc by auto
  qed simp_all
  have c0': "close 4 (b32_round (3314 / 10)) (3314 / 10)" by (rule close_mono [OF c0]) simp
  have s: "close 5 (SpeedOfSound T) (3314 / 10 + 6 / 10 * t / 10)"
    unfolding SpeedOfSound_def
  proof (rule float_add_close [OF c0' d])
    show "3314 / 10 + 6 / 10 * t / 10 = 0 \<or> 1 / 2 ^ 60 \<le> 3314 / 10 + 6 / 10 * t / 10"
      using tc by auto
  qed simp_all
  have "3314 / 10 + 6 / 10 * t / 10 = speedOfSound_spec t" by (simp add: speedOfSound_spec_def)
  then show ?thesis using s unfolding t_def by simp
qed

lemma half_speed_close:
  "close 6 (float_div (SpeedOfSound T) 2) (speedOfSound_spec (of_int (uint T)) / 2)"
proof -
  have two: "close 0 (2 :: rat) 2" by (rule close_refl) simp
  have g: "3314 / 10 \<le> speedOfSound_spec (of_int (uint T))"
    by (rule speedOfSound_spec_ge) (rule rat_of_uint_ge0)
  show ?thesis
  proof (rule float_div_close [OF SpeedOfSound_close two])
    show "speedOfSound_spec (of_int (uint T)) / 2 = 0
          \<or> 1 / 2 ^ 60 \<le> speedOfSound_spec (of_int (uint T)) / 2"
      using g by simp
  qed simp_all
qed

lemma scale_cond:
  fixes q :: rat
  assumes "q = 0 \<or> c \<le> q" "1 / 2 ^ 60 \<le> c" "1 \<le> m"
  shows "q * m = 0 \<or> 1 / 2 ^ 60 \<le> q * m"
proof (cases "q = 0")
  case True
  then show ?thesis by simp
next
  case False
  then have c: "c \<le> q" using assms(1) by simp
  have "(0 :: rat) \<le> 1 / 2 ^ 60" by simp
  then have "0 \<le> q" using c assms(2) by linarith
  then have "q * 1 \<le> q * m" using assms(3) by (intro mult_left_mono) simp_all
  then have "q \<le> q * m" by simp
  then have "1 / 2 ^ 60 \<le> q * m" using c assms(2) by linarith
  then show ?thesis by simp
qed

lemma div_cond:
  fixes q :: rat
  assumes "q = 0 \<or> c \<le> q" "0 < h" "h \<le> u" "1 / 2 ^ 60 * u \<le> c"
  shows "q / h = 0 \<or> 1 / 2 ^ 60 \<le> q / h"
proof (cases "q = 0")
  case True
  then show ?thesis by simp
next
  case False
  then have c: "c \<le> q" using assms(1) by simp
  have "1 / 2 ^ 60 * h \<le> 1 / 2 ^ 60 * u" using assms(3) by (intro mult_left_mono) simp_all
  then have "1 / 2 ^ 60 * h \<le> q" using c assms(4) by linarith
  then have "1 / 2 ^ 60 \<le> q / h" using assms(2) by (simp only: pos_le_divide_eq)
  then show ?thesis by simp
qed

lemma Time2Distance_close:
  "close 11
     (float_mul
        (float_mul (float_div (float_div (float_of_u32 W) 1000) 1000)
           (float_div (SpeedOfSound T) 2))
        1000)
     (timeToDistance_spec (of_int (uint T)) (of_int (uint W)))"
proof -
  define w :: rat where "w = of_int (uint W)"
  define h :: rat where "h = speedOfSound_spec (of_int (uint T)) / 2"
  have wc: "w = 0 \<or> 1 \<le> w" unfolding w_def by (rule rat_of_uint_cases)
  have "3314 / 10 \<le> speedOfSound_spec (of_int (uint T))"
    by (rule speedOfSound_spec_ge) (rule rat_of_uint_ge0)
  then have h1: "1 \<le> h" unfolding h_def by simp
  have k: "close 0 (1000 :: rat) 1000" by (rule close_refl) simp
  have fw: "close 1 (float_of_u32 W) w" unfolding w_def by (rule float_of_u32_close)
  have hs: "close 6 (float_div (SpeedOfSound T) 2) h" unfolding h_def by (rule half_speed_close)
  have a: "close 2 (float_div (float_of_u32 W) 1000) (w / 1000)"
  proof (rule float_div_close [OF fw k])
    show "w / 1000 = 0 \<or> 1 / 2 ^ 60 \<le> w / 1000" using wc by auto
  qed simp_all
  have b: "close 3 (float_div (float_div (float_of_u32 W) 1000) 1000) (w / 1000 / 1000)"
  proof (rule float_div_close [OF a k])
    show "w / 1000 / 1000 = 0 \<or> 1 / 2 ^ 60 \<le> w / 1000 / 1000" using wc by auto
  qed simp_all
  have p: "w / 1000 / 1000 = 0 \<or> 1 / 1000000 \<le> w / 1000 / 1000" using wc by auto
  have pc: "w / 1000 / 1000 * h = 0 \<or> 1 / 2 ^ 60 \<le> w / 1000 / 1000 * h"
    by (rule scale_cond [OF p _ h1]) simp
  have pc': "w / 1000 / 1000 * h * 1000 = 0 \<or> 1 / 2 ^ 60 \<le> w / 1000 / 1000 * h * 1000"
    by (rule scale_cond [OF pc]) simp_all
  have c: "close 10
             (float_mul (float_div (float_div (float_of_u32 W) 1000) 1000)
                (float_div (SpeedOfSound T) 2))
             (w / 1000 / 1000 * h)"
  proof (rule float_mul_close [OF b hs])
    show "w / 1000 / 1000 * h = 0 \<or> 1 / 2 ^ 60 \<le> w / 1000 / 1000 * h"
      by (rule pc)
  qed simp_all
  have d: "close 11
             (float_mul
                (float_mul (float_div (float_div (float_of_u32 W) 1000) 1000)
                   (float_div (SpeedOfSound T) 2))
                1000)
             (w / 1000 / 1000 * h * 1000)"
  proof (rule float_mul_close [OF c k])
    show "w / 1000 / 1000 * h * 1000 = 0 \<or> 1 / 2 ^ 60 \<le> w / 1000 / 1000 * h * 1000"
      by (rule pc')
  qed simp_all
  have "w / 1000 / 1000 * h * 1000 = timeToDistance_spec (of_int (uint T)) w"
    unfolding timeToDistance_spec_def h_def by simp
  then show ?thesis using d unfolding w_def by simp
qed

lemma Distance2Time_close:
  "close 11
     (float_mul
        (float_mul
           (float_div (float_div (float_of_u32 D) 1000) (float_div (SpeedOfSound T) 2))
           1000)
        1000)
     (distanceToTime_spec (of_int (uint T)) (of_int (uint D)))"
proof -
  define d :: rat where "d = of_int (uint D)"
  define h :: rat where "h = speedOfSound_spec (of_int (uint T)) / 2"
  have dc: "d = 0 \<or> 1 \<le> d" unfolding d_def by (rule rat_of_uint_cases)
  have "3314 / 10 \<le> speedOfSound_spec (of_int (uint T))"
    by (rule speedOfSound_spec_ge) (rule rat_of_uint_ge0)
  then have h1: "1 \<le> h" unfolding h_def by simp
  then have h0: "0 < h" by linarith
  have hu: "h \<le> 2 ^ 27" unfolding h_def using speedOfSound_spec_le_any [of T] by simp
  have k: "close 0 (1000 :: rat) 1000" by (rule close_refl) simp
  have fd: "close 1 (float_of_u32 D) d" unfolding d_def by (rule float_of_u32_close)
  have hs: "close 6 (float_div (SpeedOfSound T) 2) h" unfolding h_def by (rule half_speed_close)
  have a: "close 2 (float_div (float_of_u32 D) 1000) (d / 1000)"
  proof (rule float_div_close [OF fd k])
    show "d / 1000 = 0 \<or> 1 / 2 ^ 60 \<le> d / 1000" using dc by auto
  qed simp_all
  have p: "d / 1000 = 0 \<or> 1 / 1000 \<le> d / 1000" using dc by auto
  have qc: "d / 1000 / h = 0 \<or> 1 / 2 ^ 60 \<le> d / 1000 / h"
    by (rule div_cond [OF p h0 hu]) simp
  have qc': "d / 1000 / h * 1000 = 0 \<or> 1 / 2 ^ 60 \<le> d / 1000 / h * 1000"
    by (rule scale_cond [OF qc]) simp_all
  have qc'': "d / 1000 / h * 1000 * 1000 = 0 \<or> 1 / 2 ^ 60 \<le> d / 1000 / h * 1000 * 1000"
    by (rule scale_cond [OF qc']) simp_all
  have b: "close 9 (float_div (float_div (float_of_u32 D) 1000) (float_div (SpeedOfSound T) 2))
             (d / 1000 / h)"
  proof (rule float_div_close [OF a hs h0])
    show "d / 1000 / h = 0 \<or> 1 / 2 ^ 60 \<le> d / 1000 / h" by (rule qc)
  qed simp_all
  have c: "close 10
             (float_mul
                (float_div (float_div (float_of_u32 D) 1000) (float_div (SpeedOfSound T) 2))
                1000)
             (d / 1000 / h * 1000)"
  proof (rule float_mul_close [OF b k])
    show "d / 1000 / h * 1000 = 0 \<or> 1 / 2 ^ 60 \<le> d / 1000 / h * 1000" by (rule qc')
  qed simp_all
  have e: "close 11
             (float_mul
                (float_mul
                   (float_div (float_div (float_of_u32 D) 1000) (float_div (SpeedOfSound T) 2))
                   1000)
                1000)
             (d / 1000 / h * 1000 * 1000)"
  proof (rule float_mul_close [OF c k])
    show "d / 1000 / h * 1000 * 1000 = 0 \<or> 1 / 2 ^ 60 \<le> d / 1000 / h * 1000 * 1000"
      by (rule qc'')
  qed simp_all
  have "d / 1000 / h * 1000 * 1000 = distanceToTime_spec (of_int (uint T)) d"
    unfolding distanceToTime_spec_def h_def by simp
  then show ?thesis using e unfolding d_def by simp
qed

lemma rho_pow11: "rho ^ 11 \<le> 1 + 1 / 2 ^ 20"
  by (simp add: rho_def power_divide)

lemma close11_bounds:
  assumes "close 11 a x"
  shows "a \<le> x + x / 2 ^ 20" and "x - x / 2 ^ 20 \<le> a"
proof -
  have n: "0 \<le> a" "0 \<le> x" and ax: "a \<le> x * rho ^ 11" and xa: "x \<le> a * rho ^ 11"
    using assms by (simp_all add: close_def)
  have "x * rho ^ 11 \<le> x * (1 + 1 / 2 ^ 20)" using n rho_pow11 by (intro mult_left_mono) simp_all
  then show "a \<le> x + x / 2 ^ 20" using ax by (simp add: algebra_simps)
  have "a * rho ^ 11 \<le> a * (1 + 1 / 2 ^ 20)" using n rho_pow11 by (intro mult_left_mono) simp_all
  then have "x \<le> a * (1 + 1 / 2 ^ 20)" using xa by linarith
  then have "x * (1 - 1 / 2 ^ 20) \<le> a * (1 + 1 / 2 ^ 20) * (1 - 1 / 2 ^ 20)"
    by (intro mult_right_mono) simp_all
  also have "\<dots> \<le> a" using n by (simp add: algebra_simps)
  finally show "x - x / 2 ^ 20 \<le> a" by (simp add: algebra_simps)
qed

lemma uint_u32_of_float:
  assumes "0 \<le> x" "x < 4294967296"
  shows "uint (u32_of_float x) = \<lfloor>x\<rfloor>"
proof -
  have 0: "0 \<le> \<lfloor>x\<rfloor>" using assms(1) by simp
  have "\<lfloor>x\<rfloor> < 4294967296" using assms(2) by (simp add: floor_less_iff)
  then have 1: "\<lfloor>x\<rfloor> < 2 ^ 32" by simp
  have "uint (word_of_int \<lfloor>x\<rfloor> :: 32 word) = take_bit 32 \<lfloor>x\<rfloor>"
    by (simp add: uint_word_of_int_eq)
  also have "\<dots> = \<lfloor>x\<rfloor>" using 0 1 by (rule take_bit_int_eq_self)
  finally show ?thesis using assms(1) by (simp add: u32_of_float_def)
qed

lemma rat_of_uint_le:
  assumes "uint n \<le> k"
  shows "(of_int (uint n) :: rat) \<le> of_int k"
  using assms by (simp only: of_int_le_iff)

lemma floor_bounds: "of_int \<lfloor>x :: rat\<rfloor> \<le> x" "x < of_int \<lfloor>x\<rfloor> + 1"
  by linarith+

lemma Time2Distance_bounds:
  assumes T: "uint T \<le> 1000" and W: "uint W \<le> 100000"
  shows "timeToDistance_spec (of_int (uint T)) (of_int (uint W)) - 51 / 50
           < of_int (uint (Time2Distance_binary32 T W))"
    and "of_int (uint (Time2Distance_binary32 T W))
           \<le> timeToDistance_spec (of_int (uint T)) (of_int (uint W)) + 1 / 50"
proof -
  define t :: rat where "t = of_int (uint T)"
  define w :: rat where "w = of_int (uint W)"
  define S where "S = speedOfSound_spec t"
  define E where "E = timeToDistance_spec t w"
  define F where "F = float_mul
        (float_mul (float_div (float_div (float_of_u32 W) 1000) 1000)
           (float_div (SpeedOfSound T) 2))
        1000"
  have t0: "0 \<le> t" unfolding t_def by (rule rat_of_uint_ge0)
  have t1: "t \<le> 1000" unfolding t_def using rat_of_uint_le [OF T] by simp
  have w0: "0 \<le> w" unfolding w_def by (rule rat_of_uint_ge0)
  have w1: "w \<le> 100000" unfolding w_def using rat_of_uint_le [OF W] by simp
  have S0: "3314 / 10 \<le> S" unfolding S_def using t0 by (rule speedOfSound_spec_ge)
  have S1: "S \<le> 3914 / 10" unfolding S_def using t1 by (rule speedOfSound_spec_le)
  have E_eq: "E = w * S / 2000" unfolding E_def S_def timeToDistance_spec_def by simp
  have "w * S \<le> 100000 * (3914 / 10)" using w0 w1 S0 S1 by (intro mult_mono) simp_all
  then have E1: "E \<le> 19570" unfolding E_eq by simp
  have cl: "close 11 F E" unfolding F_def E_def t_def w_def by (rule Time2Distance_close)
  have F0: "0 \<le> F" using cl by (simp add: close_def)
  have up: "F \<le> E + E / 2 ^ 20" and lo: "E - E / 2 ^ 20 \<le> F"
    using close11_bounds [OF cl] by simp_all
  have e: "E / 2 ^ 20 \<le> 1 / 50" using E1 by simp
  have F1: "F < 4294967296" using up e E1 by linarith
  have "Time2Distance_binary32 T W = u32_of_float F"
    unfolding Time2Distance_binary32_def F_def by (rule refl)
  then have D: "uint (Time2Distance_binary32 T W) = \<lfloor>F\<rfloor>"
    using uint_u32_of_float [OF F0 F1] by simp
  have "E - 51 / 50 < of_int \<lfloor>F\<rfloor>" using floor_bounds(2) [of F] lo e by linarith
  then show "timeToDistance_spec (of_int (uint T)) (of_int (uint W)) - 51 / 50
           < of_int (uint (Time2Distance_binary32 T W))"
    unfolding D E_def t_def w_def .
  have "of_int \<lfloor>F\<rfloor> \<le> E + 1 / 50" using floor_bounds(1) [of F] up e by linarith
  then show "of_int (uint (Time2Distance_binary32 T W))
           \<le> timeToDistance_spec (of_int (uint T)) (of_int (uint W)) + 1 / 50"
    unfolding D E_def t_def w_def .
qed

lemma round_trip_bounds:
  assumes T: "uint T \<le> 1000" and W: "uint W \<le> 100000"
  shows "uint W - 7 \<le> uint (Distance2Time_binary32 T (Time2Distance_binary32 T W))"
    and "uint (Distance2Time_binary32 T (Time2Distance_binary32 T W)) \<le> uint W"
proof -
  define D where "D = Time2Distance_binary32 T W"
  define t :: rat where "t = of_int (uint T)"
  define w :: rat where "w = of_int (uint W)"
  define d :: rat where "d = of_int (uint D)"
  define S where "S = speedOfSound_spec t"
  define E where "E = timeToDistance_spec t w"
  define X where "X = distanceToTime_spec t d"
  define G where "G = float_mul
        (float_mul
           (float_div (float_div (float_of_u32 D) 1000) (float_div (SpeedOfSound T) 2))
           1000)
        1000"
  have t0: "0 \<le> t" unfolding t_def by (rule rat_of_uint_ge0)
  have w0: "0 \<le> w" unfolding w_def by (rule rat_of_uint_ge0)
  have w1: "w \<le> 100000" unfolding w_def using rat_of_uint_le [OF W] by simp
  have d0: "0 \<le> d" unfolding d_def by (rule rat_of_uint_ge0)
  have S0: "3314 / 10 \<le> S" unfolding S_def using t0 by (rule speedOfSound_spec_ge)
  then have Sp: "0 < S" by linarith
  have E_eq: "E = w * S / 2000" unfolding E_def S_def timeToDistance_spec_def by simp
  have dl: "E - 51 / 50 < d" and du: "d \<le> E + 1 / 50"
    unfolding E_def d_def D_def t_def w_def using Time2Distance_bounds [OF T W] by simp_all
  have X_eq: "X = 2000 * d / S" unfolding X_def S_def distanceToTime_spec_def by simp
  have XS: "X * S = 2000 * d" unfolding X_eq using Sp by simp
  have X0: "0 \<le> X" unfolding X_eq using d0 Sp by simp
  have "X * S \<le> (w + 1 / 8) * S" using XS du E_eq S0 by (simp add: algebra_simps)
  then have Xu: "X \<le> w + 1 / 8" using Sp by (simp only: mult_le_cancel_right)
  have "(w - 63 / 10) * S < X * S" using XS dl E_eq S0 by (simp add: algebra_simps)
  then have Xl: "w - 63 / 10 < X" using Sp by (simp only: mult_less_cancel_right)
  have cl: "close 11 G X" unfolding G_def X_def t_def d_def by (rule Distance2Time_close)
  have G0: "0 \<le> G" using cl by (simp add: close_def)
  have up: "G \<le> X + X / 2 ^ 20" and lo: "X - X / 2 ^ 20 \<le> G"
    using close11_bounds [OF cl] by simp_all
  have e: "X / 2 ^ 20 \<le> 1 / 10" using Xu w1 by simp
  have G1: "G < 4294967296" using up e Xu w1 by linarith
  have "Distance2Time_binary32 T D = u32_of_float G"
    unfolding Distance2Time_binary32_def G_def by (rule refl)
  then have R: "uint (Distance2Time_binary32 T D) = \<lfloor>G\<rfloor>"
    using uint_u32_of_float [OF G0 G1] by simp
  have "G < w + 1" using up e Xu by linarith
  then have "G < of_int (uint W + 1)" unfolding w_def by simp
  then have "\<lfloor>G\<rfloor> < uint W + 1" by (simp only: floor_less_iff)
  then show "uint (Distance2Time_binary32 T (Time2Distance_binary32 T W)) \<le> uint W"
    unfolding D_def [symmetric] R by simp
  have "w - 8 < of_int \<lfloor>G\<rfloor>" using floor_bounds(2) [of G] lo e Xl by linarith
  then have "(of_int (uint W - 8) :: rat) < of_int \<lfloor>G\<rfloor>" unfolding w_def by simp
  then have "uint W - 8 < \<lfloor>G\<rfloor>" by (simp only: of_int_less_iff)
  then show "uint W - 7 \<le> uint (Distance2Time_binary32 T (Time2Distance_binary32 T W))"
    unfolding D_def [symmetric] R by simp
qed

subsection \<open>Evaluated conversions and readings\<close>

text \<open>
  The result of a reading is that of the probe, with \<open>Time2Distance\<close> applied to the
  measured pulse width when the reading succeeds.
\<close>

lemma ReadDistance_pulse:
  "ReadDistance cv T s d w =
     map_option (\<lambda>(r, x, w'). (r, if r = RESULT_OK then Time2Distance cv T x else x, w'))
       (ReadDistance (cv\<lparr>Time2Distance := (\<lambda>ambientTemperature timeUs. timeUs)\<rparr>) T s d w)"
  by (simp add: ReadDistance_def Let_def split: prod.split option.split)

lemma binary32_values:
  "Time2Distance_binary32 200 4000 = 686"
  "Distance2Time_binary32 200 4000 = 23296"
  "Time2Distance_binary32 200 10000 = 1716"
  "Distance2Time_binary32 200 686 = 3995"
  by code_simp+

lemma binary32_table:
  "Time2Distance_binary32 250 4000 = 692
   \<and> Distance2Time_binary32 250 4000 = 23094
   \<and> Time2Distance_binary32 200 3000 = 515"
  by code_simp

lemma probe_run:
  "ReadDistance pulse_probe 200 ready_HCSR04 0 ticking_board =
     Some (RESULT_OK, 4000, ticking_board\<lparr>micros_cnt := 9, digitalRead_cnt := 6\<rparr>)"
  by (simp add: ready_HCSR04_eq ticking_board_def ReadDistance_def pulse_probe_def
      binary32_conversions_def binary32_values micros_def GetEchoPinState_def
      digitalRead_def wait_echo.simps Let_def)

lemma slow_probe_run:
  "ReadDistance pulse_probe 200 ready_HCSR04 0 slow_board =
     Some (RESULT_OK, 10000, slow_board\<lparr>micros_cnt := 9, digitalRead_cnt := 6\<rparr>)"
  by (simp add: ready_HCSR04_eq ticking_board_def slow_board_def ReadDistance_def pulse_probe_def
      binary32_conversions_def binary32_values micros_def GetEchoPinState_def
      digitalRead_def wait_echo.simps Let_def)

subsection \<open>The distance of a reading and the closed form\<close>

text \<open>
  C3.  At an ambient temperature \<open>T\<close> of at most 1000 deci-degrees and for an echo
  pulse of \<open>W \<le> 100000\<close> microseconds: a reading of the driver that measures the pulse
  width \<open>W\<close> returns \<open>RESULT_OK\<close> with the distance \<open>Time2Distance(T, W)\<close>, computed in
  single precision and cut to an integer.  That distance is not the closed form
  \<open>timeToDistance(T, W) = W / 1,000,000 \<times> (speedOfSound(T) / 2) \<times> 1000\<close> with
  \<open>speedOfSound(T) = 331.4 + 0.6 \<times> (T / 10)\<close>, nor always its integer part: it is
  greater than the closed form minus 1.02 and at most the closed form plus 0.02
  millimetres.  The inverse conversion \<open>Distance2Time(T, Time2Distance(T, W))\<close> is at
  most \<open>W\<close> and at least \<open>W - 7\<close> microseconds.
\<close>

theorem driver_distance_near_closed_form:
  assumes "uint T \<le> 1000" and "uint W \<le> 100000"
  shows
    "(ReadDistance pulse_probe T s d w = Some (RESULT_OK, W, w') \<longrightarrow>
        ReadDistance binary32_conversions T s d w =
          Some (RESULT_OK, Time2Distance_binary32 T W, w'))
     \<and> timeToDistance_spec (of_int (uint T)) (of_int (uint W)) - 51 / 50
          < of_int (uint (Time2Distance_binary32 T W))
     \<and> of_int (uint (Time2Distance_binary32 T W))
          \<le> timeToDistance_spec (of_int (uint T)) (of_int (uint W)) + 1 / 50
     \<and> uint W - 7 \<le> uint (Distance2Time_binary32 T (Time2Distance_binary32 T W))
     \<and> uint (Distance2Time_binary32 T (Time2Distance_binary32 T W)) \<le> uint W"
proof -
  have a: "ReadDistance pulse_probe T s d w = Some (RESULT_OK, W, w') \<longrightarrow>
        ReadDistance binary32_conversions T s d w =
          Some (RESULT_OK, Time2Distance_binary32 T W, w')"
  proof
    assume p: "ReadDistance pulse_probe T s d w = Some (RESULT_OK, W, w')"
    have "ReadDistance binary32_conversions T s d w =
       map_option
         (\<lambda>(r, x, w'). (r, if r = RESULT_OK then Time2Distance binary32_conversions T x else x, w'))
         (ReadDistance pulse_probe T s d w)"
      unfolding pulse_probe_def by (rule ReadDistance_pulse)
    then show "ReadDistance binary32_conversions T s d w =
          Some (RESULT_OK, Time2Distance_binary32 T W, w')"
      unfolding p by (simp add: binary32_conversions_def)
  qed
  note b = Time2Distance_bounds [OF assms]
  note c = round_trip_bounds [OF assms]
  show ?thesis using a b c by blast
qed

theorem driver_distance_near_closed_form_witness:
  "uint (200 :: u32) \<le> 1000 \<and> uint (4000 :: u32) \<le> 100000
   \<and> ReadDistance pulse_probe 200 ready_HCSR04 0 ticking_board =
       Some (RESULT_OK, 4000, ticking_board\<lparr>micros_cnt := 9, digitalRead_cnt := 6\<rparr>)
   \<and> ReadDistance binary32_conversions 200 ready_HCSR04 0 ticking_board =
       Some (RESULT_OK, 686, ticking_board\<lparr>micros_cnt := 9, digitalRead_cnt := 6\<rparr>)
   \<and> timeToDistance_spec 200 4000 = 3434 / 5
   \<and> Time2Distance_binary32 200 4000 = 686
   \<and> Distance2Time_binary32 200 (Time2Distance_binary32 200 4000) = 3995"
proof -
  have h: "uint (200 :: u32) \<le> 1000" "uint (4000 :: u32) \<le> 100000"
    by simp_all
  note T = driver_distance_near_closed_form [OF h, of ready_HCSR04 0 ticking_board
      "ticking_board\<lparr>micros_cnt := 9, digitalRead_cnt := 6\<rparr>"]
  have r: "ReadDistance binary32_conversions 200 ready_HCSR04 0 ticking_board =
       Some (RESULT_OK, Time2Distance_binary32 200 4000,
         ticking_board\<lparr>micros_cnt := 9, digitalRead_cnt := 6\<rparr>)"
    using T probe_run by blast
  have e: "timeToDistance_spec 200 4000 = 3434 / 5"
    by (simp add: timeToDistance_spec_def speedOfSound_spec_def)
  show ?thesis
    using h r e probe_run by (simp add: binary32_values)
qed

text \<open>
  At 20 degrees a pulse of 10000 microseconds is read as 1716 millimetres, and the
  closed form is 1717 exactly; 4000 microseconds are read as 686 millimetres, which
  the inverse conversion takes to 3995 microseconds (the closed form of the inverse
  gives 3995.34).
\<close>

theorem driver_distance_differs_from_closed_form:
  "ReadDistance pulse_probe 200 ready_HCSR04 0 slow_board =
       Some (RESULT_OK, 10000, slow_board\<lparr>micros_cnt := 9, digitalRead_cnt := 6\<rparr>)
   \<and> ReadDistance binary32_conversions 200 ready_HCSR04 0 slow_board =
       Some (RESULT_OK, 1716, slow_board\<lparr>micros_cnt := 9, digitalRead_cnt := 6\<rparr>)
   \<and> timeToDistance_spec 200 10000 = 1717
   \<and> Time2Distance_binary32 200 4000 = 686
   \<and> Distance2Time_binary32 200 686 = 3995
   \<and> distanceToTime_spec 200 686 = 6860000 / 1717"
proof -
  have "ReadDistance binary32_conversions 200 ready_HCSR04 0 slow_board =
       map_option
         (\<lambda>(r, x, w'). (r, if r = RESULT_OK then Time2Distance binary32_conversions 200 x else x, w'))
         (ReadDistance pulse_probe 200 ready_HCSR04 0 slow_board)"
    unfolding pulse_probe_def by (rule ReadDistance_pulse)
  then have r: "ReadDistance binary32_conversions 200 ready_HCSR04 0 slow_board =
       Some (RESULT_OK, 1716, slow_board\<lparr>micros_cnt := 9, digitalRead_cnt := 6\<rparr>)"
    unfolding slow_probe_run by (simp add: binary32_conversions_def binary32_values)
  have e: "timeToDistance_spec 200 10000 = 1717"
    by (simp add: timeToDistance_spec_def speedOfSound_spec_def)
  have f: "distanceToTime_spec 200 686 = 6860000 / 1717"
    by (simp add: distanceToTime_spec_def speedOfSound_spec_def)
  show ?thesis
    using r e f slow_probe_run by (simp add: binary32_values)
qed

end
